theory Spec2Isabelle
  imports Complex_Main
begin

section \<open>Values\<close>

text \<open>
  A JavaScript string is represented by the bytes of its UTF-8 encoding, so \<open>Buffer.from(s)\<close>
  is the identity and a \<open>Buffer\<close> is a list of bytes as well. Objects and arrays that the
  code shares between a builder and the value it builds live in a store and are referred to
  by address.
\<close>

type_synonym buffer = "char list"
type_synonym addr = nat

text \<open>
  Every \<open>throw new Error(message)\<close> of the sources is one constructor, named after its
  message. \<open>TypeError\<close> is what the runtime raises for a property read or a method call on
  \<open>undefined\<close> and for \<open>Buffer.from(undefined)\<close>; \<open>ReferenceError\<close> is what it raises for an
  identifier that is bound nowhere.
  \<^item> \<open>InputAmountNotPositiveInteger\<close>: "Input amount must be a positive nonzero integer"
    (raised by \<open>input\<close>, by \<open>transfer\<close> and by \<open>build\<close>)
  \<^item> \<open>TransferAmountNotPositiveInteger\<close>: "transfer amount must be a positive nonzero integer"
  \<^item> \<open>ConversionAlreadySpecified\<close>: "Conversion already specified"
  \<^item> \<open>TransfersAlreadySpecified\<close>: "One or more transfer(s) already specified for this transaction"
  \<^item> \<open>NoConversionOrTransfer\<close>: "Either a conversion or transfer must be specified"
  \<^item> \<open>SelfTransfer\<close>: "input cannot be the same as the transfer address"
  \<^item> \<open>TransferSumMismatch\<close>: "transfer amount must equal input amount"
  \<^item> \<open>InvalidSignatureLength\<close>: "Invalid Signature Length."
  \<^item> \<open>PublicKeyMismatch\<close>: "Public Key (...) for provided signature does not match input adderess."
  \<^item> \<open>TransactionNotSigned\<close>: "Transaction not signed"
  \<^item> \<open>NoTransactionsSpecified\<close>: "No Transactions Specified."
  \<^item> \<open>KeyNot32Bytes\<close>: "Key ... is not 32 bytes long." (factom, \<open>keyToPublicFctAddress\<close>)
  \<^item> \<open>BadSignatureSize\<close>, \<open>BadPublicKeySize\<close>, \<open>BadSecretKeySize\<close>: "bad signature size",
    "bad public key size", "bad secret key size" (tweetnacl)
\<close>

datatype error =
    TypeError
  | ReferenceError
  | ConstructorArgument
  | InputAlreadySpecified
  | AddInputToAssembled
  | InvalidInputAddress
  | InputAmountNotPositiveInteger
  | ConversionAlreadySpecified
  | AddOutputToAssembled
  | InvalidOutputAddress
  | TransfersAlreadySpecified
  | AddConversionToAssembled
  | AddMetadataToAssembled
  | InvalidMetadata
  | InvalidSignatureLength
  | PublicKeyMismatch
  | InputIncomplete
  | NoConversionOrTransfer
  | ConversionSameAsInput
  | ConversionStringMissing
  | MalformedTransferEntry
  | TransferAddressMissing
  | TransferAmountMissing
  | TransferAmountNotPositiveInteger
  | SelfTransfer
  | TransferSumMismatch
  | MissingSignature
  | MustIncludeInput
  | MustIncludeConversion
  | MustIncludeTransfers
  | MustIncludeTransactions
  | TransactionNotSigned
  | InvalidTransactionSignature nat
  | NoTransactionsSpecified
  | SignatureCountMismatch
  | MalformedTransaction nat
  | ExpectingSignature nat
  | TransactionNotFound
  | PublicKeyNotSpecified
  | RcdSignatureMismatch
  | KeyNot32Bytes
  | BadSignatureSize
  | BadPublicKeySize
  | BadSecretKeySize

subsection \<open>BigNumber\<close>

text \<open>
  The values of bignumber.js: finite decimals, the two infinities (\<open>Infinite True\<close> is
  \<open>+Infinity\<close>) and \<open>NaN\<close>. \<open>new BigNumber(x)\<close> is taken as done by the caller: an amount
  argument is a \<open>BigNumber\<close> already, or \<open>None\<close> when it is omitted.
\<close>

datatype BigNumber = Finite rat | Infinite bool | NaN

fun isInteger :: "BigNumber \<Rightarrow> bool" where
  "isInteger (Finite q) = (rat_of_int \<lfloor>q\<rfloor> = q)"
| "isInteger (Infinite p) = False"
| "isInteger NaN = False"

fun isLessThan :: "BigNumber \<Rightarrow> BigNumber \<Rightarrow> bool" where
  "isLessThan (Finite x) (Finite y) = (x < y)"
| "isLessThan (Finite x) (Infinite q) = q"
| "isLessThan (Infinite p) (Finite y) = (\<not> p)"
| "isLessThan (Infinite p) (Infinite q) = (\<not> p \<and> q)"
| "isLessThan NaN y = False"
| "isLessThan x NaN = False"

fun isEqualTo :: "BigNumber \<Rightarrow> BigNumber \<Rightarrow> bool" where
  "isEqualTo (Finite x) (Finite y) = (x = y)"
| "isEqualTo (Infinite p) (Infinite q) = (p = q)"
| "isEqualTo x y = False"

fun plusBN :: "BigNumber \<Rightarrow> BigNumber \<Rightarrow> BigNumber" where
  "plusBN (Finite x) (Finite y) = Finite (x + y)"
| "plusBN (Finite x) (Infinite q) = Infinite q"
| "plusBN (Infinite p) (Finite y) = Infinite p"
| "plusBN (Infinite p) (Infinite q) = (if p = q then Infinite p else NaN)"
| "plusBN NaN y = NaN"
| "plusBN x NaN = NaN"

definition invalid_amount :: "BigNumber \<Rightarrow> bool" where
  \<comment> \<open>\<open>!amt.isInteger() || amt.isLessThan(0)\<close>\<close>
  "invalid_amount amt = (\<not> isInteger amt \<or> isLessThan amt (Finite 0))"

definition default_amount :: "BigNumber option \<Rightarrow> BigNumber" where
  \<comment> \<open>\<open>let amt = amount; if (amt === undefined) amt = 0; amt = new BigNumber(amt)\<close>\<close>
  "default_amount a = (case a of None \<Rightarrow> Finite 0 | Some v \<Rightarrow> v)"

subsection \<open>Numbers as text, hexadecimal text as bytes\<close>

definition decimal_digit :: "nat \<Rightarrow> char" where
  "decimal_digit d = ''0123456789'' ! d"

text \<open>
  \<open>Number.prototype.toString\<close> on a non-negative integer (an array index, Unix seconds):
  its decimal digits, which is what JavaScript prints for integers below \<open>10^21\<close>.
\<close>

function toString :: "nat \<Rightarrow> string" where
  "toString n =
     (if n < 10 then [decimal_digit n]
      else toString (n div 10) @ [decimal_digit (n mod 10)])"
  by pat_completeness auto
termination
  by (relation "measure id") auto

declare toString.simps [simp del]

definition hex_digits :: "(char \<times> nat) list" where
  "hex_digits =
     zip ''0123456789abcdefABCDEF''
       [0, 1, 2, 3, 4, 5, 6, 7, 8, 9, 10, 11, 12, 13, 14, 15, 10, 11, 12, 13, 14, 15]"

definition hexval :: "char \<Rightarrow> nat option" where
  "hexval c = map_of hex_digits c"

text \<open>
  \<open>Buffer.from(s, 'hex')\<close>: two hexadecimal characters give one byte; decoding stops at the
  first pair that is not hexadecimal, and a trailing single character is dropped.
\<close>

fun hexDecode :: "string \<Rightarrow> buffer" where
  "hexDecode (a # b # rest) =
     (case (hexval a, hexval b) of
        (Some x, Some y) \<Rightarrow> char_of (16 * x + y) # hexDecode rest
      | _ \<Rightarrow> [])"
| "hexDecode s = []"

text \<open>
  The byte sequence that is hashed and signed,
  \<open>Buffer.concat([index, timestamp, chainId, content])\<close> with
  \<open>index = Buffer.from(inputIndex.toString())\<close>, \<open>timestamp = Buffer.from(ts.toString())\<close>,
  \<open>chainId = Buffer.from(tokenChainId, 'hex')\<close> and \<open>content = Buffer.from(content)\<close>. The batch
  constructor and \<open>getMarshalDataSig\<close> both build it.
\<close>

definition marshal :: "nat \<Rightarrow> nat \<Rightarrow> string \<Rightarrow> string \<Rightarrow> buffer" where
  "marshal inputIndex ts tokenChainId content =
     toString inputIndex @ toString ts @ hexDecode tokenChainId @ content"

section \<open>Objects and the store\<close>

text \<open>
  Metadata is any value, given here by its JSON text; \<open>Cyclic\<close> stands for a value that
  \<open>JSON.stringify\<close> cannot serialise. The input object of a builder, the entries of its
  transfers array and its key object (\<open>{}\<close>, a key pair of tweetnacl, or
  \<open>{pubaddr, publicKey}\<close>) have the properties the code reads and writes.
\<close>

datatype metadata_value = Json string | Cyclic

record input_obj =
  in_address :: "string option"
  in_amount :: "BigNumber option"
  in_type :: "string option"

record transfer_obj =
  tr_address :: "string option"
  tr_amount :: "BigNumber option"

record key_obj =
  pubaddr :: "string option"
  publicKey :: "buffer option"
  secretKey :: "buffer option"

subsection \<open>External collaborators\<close>

text \<open>
  The address and key utilities (factom), the signature scheme (tweetnacl), the hash, the
  JSON serialiser and the constant \<open>RCD_TYPE_1\<close> are libraries outside the repository. The
  code only calls them, so they are parameters of the model. Three of them are called with
  bytes that come from the caller or from the store, and reject an argument by its length
  before they compute anything: \<open>keyToPublicFctAddress\<close> a key that is not 32 bytes long,
  \<open>nacl.sign.detached\<close> a secret key that is not 64 bytes long, and
  \<open>nacl.sign.detached.verify\<close> a signature that is not 64 bytes long or a public key that is
  not 32 bytes long. These exceptions are part of the calls below (\<open>pkSignature\<close>, \<open>sign\<close>,
  \<open>validateSignature\<close>); the parameter gives the result for arguments of the right length.
  \<open>nacl.sign.keyPair.fromSeed\<close> is called by \<open>input\<close> only, on \<open>addressToKey(fs)\<close> for an
  address that \<open>isValidPrivateAddress\<close> has accepted, which is the seed that the address
  encodes. \<open>stringify\<close> receives the content object of a batch: its version and its list of
  transaction contents, each a JSON value.
\<close>

record env =
  isValidPrivateAddress :: "string \<Rightarrow> bool"
  isValidPublicFctAddress :: "string \<Rightarrow> bool"
  addressToKey :: "string \<Rightarrow> buffer"
  getPublicAddress :: "string \<Rightarrow> string"
  keyToPublicFctAddress :: "buffer \<Rightarrow> string"
  keyPair_fromSeed :: "buffer \<Rightarrow> buffer \<times> buffer"
  detached :: "buffer \<Rightarrow> buffer \<Rightarrow> buffer"
  detached_verify :: "buffer \<Rightarrow> buffer \<Rightarrow> buffer \<Rightarrow> bool"
  sha512 :: "buffer \<Rightarrow> buffer"
  RCD_TYPE_1 :: buffer
  stringify :: "nat \<times> metadata_value list \<Rightarrow> string"

subsection \<open>Instances, builders and the store\<close>

text \<open>
  A \<open>Transaction\<close> (2/Transaction.js) is frozen by its constructor: the record holds its own
  properties, of which \<open>_input\<close>, \<open>_transfers\<close> and \<open>_key\<close> are references to objects of the
  builder. A property that the constructor did not assign reads as \<open>undefined\<close> (\<open>None\<close>).
\<close>

record Transaction =
  tx_input :: addr
  tx_conversion :: "string option"
  tx_transfers :: "addr option"
  tx_metadata :: "metadata_value option"
  tx_key :: "addr option"
  tx_rcd :: "buffer option"
  tx_entryhash :: "string option"
  tx_timestamp :: "nat option"
  tx_pending :: "bool option"

record store =
  input_objs :: "addr \<Rightarrow> input_obj"
  transfer_arrays :: "addr \<Rightarrow> transfer_obj option list"
  key_objs :: "addr \<Rightarrow> key_obj"
  transaction_arrays :: "addr \<Rightarrow> Transaction option list"
  signature_arrays :: "addr \<Rightarrow> buffer option list"
  next_addr :: addr

record TransactionBuilder =
  b_tokenChainId :: string
  b_key :: "addr option"
  b_signature :: "buffer list option"
  b_input :: addr
  b_transfers :: "addr option"
  b_conversion :: "string option"
  b_timestamp :: "nat option"
  b_metadata :: "metadata_value option"

record TransactionBatchBuilder =
  bb_tokenChainId :: string
  bb_version :: nat
  bb_transactions :: "addr option"
  bb_signatures :: "addr option"
  bb_timestamp :: "nat option"

record TransactionBatch =
  tb_transactions :: "addr option"
  tb_tokenChainId :: "string option"
  tb_timestamp :: "nat option"
  tb_extIds :: "buffer option list option"
  tb_rcds :: "buffer option list option"
  tb_content :: "string option"
  tb_signatures :: "addr option"
  tb_entryhash :: "string option"
  tb_pending :: "bool option"

text \<open>The response objects of the API, from which both classes can be constructed as well.\<close>

record tx_response =
  r_input :: "addr option"
  r_conversion :: "string option"
  r_transfers :: "addr option"
  r_metadata :: "metadata_value option"
  r_entryhash :: "string option"
  r_timestamp :: "nat option"
  r_pending :: "bool option"

record batch_response =
  br_transactions :: "addr option"
  br_entryhash :: "string option"
  br_timestamp :: "nat option"
  br_pending :: "bool option"

datatype builder_arg = NoArgument | FromTransaction Transaction | OtherArgument
datatype tx_arg = TxFromBuilder TransactionBuilder | TxFromObject tx_response
datatype batch_builder_arg = FromBatch TransactionBatch | NotABatch
datatype batch_arg = BatchFromBuilder TransactionBatchBuilder | BatchFromObject batch_response

definition token_chain_id :: string where
  "token_chain_id = ''cffce0f409ebba4ed236d49d89c70e4bd1f1367d86402a3363366683265a242d''"

section \<open>TransactionBuilder (2/TransactionBuilder.js)\<close>

text \<open>
  \<open>new TransactionBuilder(t)\<close>. Without an argument the builder allocates its key object
  \<open>{}\<close>, its input object \<open>{address: "", amount: new BigNumber(0), type: ""}\<close> and its
  transfers array \<open>[]\<close>. Seeded with a Transaction it takes over the transaction's own
  objects; \<open>t._signature\<close> is a property that no Transaction has.
\<close>

definition TransactionBuilder_constructor ::
  "store \<Rightarrow> builder_arg \<Rightarrow> error + (store \<times> TransactionBuilder)" where
  "TransactionBuilder_constructor h t =
     (case t of
        FromTransaction tx \<Rightarrow>
          Inr (h, \<lparr>b_tokenChainId = token_chain_id, b_key = tx_key tx, b_signature = None,
                   b_input = tx_input tx, b_transfers = tx_transfers tx,
                   b_conversion = tx_conversion tx, b_timestamp = tx_timestamp tx,
                   b_metadata = tx_metadata tx\<rparr>)
      | NoArgument \<Rightarrow>
          (let k = next_addr h; i = k + 1; ts = k + 2 in
           Inr (h\<lparr>key_objs := (key_objs h)(k := \<lparr>pubaddr = None, publicKey = None, secretKey = None\<rparr>),
                   input_objs := (input_objs h)
                     (i := \<lparr>in_address = Some [], in_amount = Some (Finite 0), in_type = Some []\<rparr>),
                   transfer_arrays := (transfer_arrays h)(ts := []),
                   next_addr := k + 3\<rparr>,
                \<lparr>b_tokenChainId = token_chain_id, b_key = Some k, b_signature = None,
                   b_input = i, b_transfers = Some ts, b_conversion = None,
                   b_timestamp = None, b_metadata = None\<rparr>))
      | OtherArgument \<Rightarrow> Inl ConstructorArgument)"

text \<open>
  \<open>input(type_, fs, amount_)\<close>. The first test reads \<open>this._input.length\<close>, which an input
  object does not have: \<open>undefined > 0\<close> is false, so "Input already specified" is never
  raised. \<open>this._key = ...\<close> binds a new key object; the three assignments to
  \<open>this._input\<close> write into the existing input object.
\<close>

definition input ::
  "env \<Rightarrow> string option \<Rightarrow> string \<Rightarrow> BigNumber option \<Rightarrow> store \<times> TransactionBuilder
     \<Rightarrow> error + (store \<times> TransactionBuilder)" where
  "input E type_arg fs amount_arg hb =
     (let h = fst hb; b = snd hb; amt = default_amount amount_arg; k = next_addr h in
      if b_signature b \<noteq> None then Inl AddInputToAssembled
      else if isValidPrivateAddress E fs then
        (if invalid_amount amt then Inl InputAmountNotPositiveInteger
         else
           (let kp = keyPair_fromSeed E (addressToKey E fs) in
            Inr (h\<lparr>key_objs := (key_objs h)
                      (k := \<lparr>pubaddr = None, publicKey = Some (fst kp), secretKey = Some (snd kp)\<rparr>),
                    input_objs := (input_objs h)
                      (b_input b := \<lparr>in_address = Some (getPublicAddress E fs),
                                      in_amount = Some amt, in_type = type_arg\<rparr>),
                    next_addr := k + 1\<rparr>,
                 b\<lparr>b_key := Some k\<rparr>)))
      else if \<not> isValidPublicFctAddress E fs then Inl InvalidInputAddress
      else if invalid_amount amt then Inl InputAmountNotPositiveInteger
      else
        Inr (h\<lparr>key_objs := (key_objs h)
                  (k := \<lparr>pubaddr = Some fs, publicKey = None, secretKey = None\<rparr>),
                input_objs := (input_objs h)
                  (b_input b := \<lparr>in_address = Some fs, in_amount = Some amt, in_type = type_arg\<rparr>),
                next_addr := k + 1\<rparr>,
             b\<lparr>b_key := Some k\<rparr>))"

text \<open>\<open>transfer(fa, amount)\<close>: \<open>this._transfers.push(...)\<close> appends to the array in the store.\<close>

definition transfer ::
  "env \<Rightarrow> string \<Rightarrow> BigNumber option \<Rightarrow> store \<times> TransactionBuilder
     \<Rightarrow> error + (store \<times> TransactionBuilder)" where
  "transfer E fa amount hb =
     (let h = fst hb; b = snd hb; amt = default_amount amount in
      if b_conversion b \<noteq> None then Inl ConversionAlreadySpecified
      else if b_signature b \<noteq> None then Inl AddOutputToAssembled
      else if \<not> isValidPublicFctAddress E fa then Inl InvalidOutputAddress
      else if invalid_amount amt then Inl InputAmountNotPositiveInteger
      else
        (case b_transfers b of
           None \<Rightarrow> Inl TypeError
         | Some ts \<Rightarrow>
             Inr (h\<lparr>transfer_arrays := (transfer_arrays h)
                       (ts := transfer_arrays h ts @ [Some \<lparr>tr_address = Some fa, tr_amount = Some amt\<rparr>])\<rparr>,
                  b)))"

text \<open>\<open>conversion(convert_to_type_)\<close>; the argument may be \<open>undefined\<close>.\<close>

definition conversion ::
  "string option \<Rightarrow> store \<times> TransactionBuilder \<Rightarrow> error + (store \<times> TransactionBuilder)" where
  "conversion convert_to_type hb =
     (let h = fst hb; b = snd hb in
      case b_transfers b of
        None \<Rightarrow> Inl TypeError
      | Some ts \<Rightarrow>
          if length (transfer_arrays h ts) > 0 then Inl TransfersAlreadySpecified
          else if b_signature b \<noteq> None then Inl AddConversionToAssembled
          else Inr (h, b\<lparr>b_conversion := convert_to_type\<rparr>))"

text \<open>\<open>metadata(metadata)\<close>: \<open>JSON.stringify\<close> throws on a cyclic value.\<close>

definition metadata ::
  "metadata_value option \<Rightarrow> store \<times> TransactionBuilder \<Rightarrow> error + (store \<times> TransactionBuilder)" where
  "metadata m hb =
     (let h = fst hb; b = snd hb in
      if b_signature b \<noteq> None then Inl AddMetadataToAssembled
      else if m = Some Cyclic then Inl InvalidMetadata
      else Inr (h, b\<lparr>b_metadata := m\<rparr>))"

text \<open>
  \<open>pkSignature(publicKey, signature)\<close>. The public key comes as a hexadecimal string or as
  bytes (\<open>Buffer.from(publicKey, 'hex')\<close> ignores the encoding for bytes). The first two
  statements decode the key and derive its address; \<open>keyToPublicFctAddress(pk)\<close> throws for a
  key that is not 32 bytes long, before the method tests anything. Then come the test of the
  signature length and the comparison of the address with the input address.
  \<open>this._key.publicKey = pk\<close> writes into the existing key object.
\<close>

datatype public_key_arg = HexKey string | ByteKey buffer

definition Buffer_from_hex :: "public_key_arg \<Rightarrow> buffer" where
  "Buffer_from_hex public_key = (case public_key of HexKey s \<Rightarrow> hexDecode s | ByteKey bs \<Rightarrow> bs)"

definition pkSignature ::
  "env \<Rightarrow> public_key_arg \<Rightarrow> buffer \<Rightarrow> store \<times> TransactionBuilder
     \<Rightarrow> error + (store \<times> TransactionBuilder)" where
  "pkSignature E public_key signature hb =
     (let h = fst hb; b = snd hb;
          pk = Buffer_from_hex public_key in
      if length pk \<noteq> 32 then Inl KeyNot32Bytes
      else
        (let fa = keyToPublicFctAddress E pk in
         if length signature \<noteq> 64 then Inl InvalidSignatureLength
         else if in_address (input_objs h (b_input b)) = Some fa then
           (case b_key b of
              None \<Rightarrow> Inl TypeError
            | Some k \<Rightarrow>
                Inr (h\<lparr>key_objs := (key_objs h)(k := (key_objs h k)\<lparr>publicKey := Some pk\<rparr>)\<rparr>,
                     b\<lparr>b_signature := Some [signature]\<rparr>))
         else Inl PublicKeyMismatch))"

text \<open>
  The decoded \<open>publicKey\<close> argument of \<open>pkSignature\<close> and, for a key of 32 bytes, the public
  address derived from it.
\<close>

definition derived_address :: "env \<Rightarrow> public_key_arg \<Rightarrow> string" where
  "derived_address E public_key = keyToPublicFctAddress E (Buffer_from_hex public_key)"

section \<open>Transaction (2/Transaction.js)\<close>

text \<open>
  \<open>new Transaction(builder)\<close>. From a builder, the transaction keeps the builder's input
  object, transfers array (when it is not empty) and key object, and computes its RCD
  \<open>Buffer.concat([constant.RCD_TYPE_1, Buffer.from(builder._key.publicKey)])\<close>, which needs
  the public key. From a response object, \<open>!builder.data.conversion\<close> also holds for the
  empty string.
\<close>

definition Transaction_constructor :: "env \<Rightarrow> store \<Rightarrow> tx_arg \<Rightarrow> error + Transaction" where
  "Transaction_constructor E h builder =
     (case builder of
        TxFromBuilder b \<Rightarrow>
          (case b_transfers b of
             None \<Rightarrow> Inl TypeError
           | Some ts \<Rightarrow>
               (case b_key b of
                  None \<Rightarrow> Inl TypeError
                | Some k \<Rightarrow>
                    (case publicKey (key_objs h k) of
                       None \<Rightarrow> Inl TypeError
                     | Some pk \<Rightarrow>
                         Inr \<lparr>tx_input = b_input b,
                              tx_conversion = b_conversion b,
                              tx_transfers = (if length (transfer_arrays h ts) > 0 then Some ts else None),
                              tx_metadata = b_metadata b,
                              tx_key = Some k,
                              tx_rcd = Some (RCD_TYPE_1 E @ pk),
                              tx_entryhash = None, tx_timestamp = None, tx_pending = None\<rparr>)))
      | TxFromObject r \<Rightarrow>
          (case r_input r of
             None \<Rightarrow> Inl MustIncludeInput
           | Some i \<Rightarrow>
               if r_conversion r = None \<or> r_conversion r = Some [] then Inl MustIncludeConversion
               else if r_transfers r = None then Inl MustIncludeTransfers
               else
                 Inr \<lparr>tx_input = i, tx_conversion = r_conversion r, tx_transfers = r_transfers r,
                      tx_metadata = r_metadata r, tx_key = None, tx_rcd = None,
                      tx_entryhash = r_entryhash r, tx_timestamp = r_timestamp r,
                      tx_pending = r_pending r\<rparr>))"

definition getInput :: "store \<Rightarrow> Transaction \<Rightarrow> input_obj" where
  "getInput h tx = input_objs h (tx_input tx)"

definition getConversion :: "Transaction \<Rightarrow> string option" where
  "getConversion tx = tx_conversion tx"

definition getRCD :: "Transaction \<Rightarrow> buffer option" where
  "getRCD tx = tx_rcd tx"

definition getTransfers :: "store \<Rightarrow> Transaction \<Rightarrow> transfer_obj option list option" where
  "getTransfers h tx = map_option (transfer_arrays h) (tx_transfers tx)"

definition getMetadata :: "Transaction \<Rightarrow> metadata_value option" where
  "getMetadata tx = tx_metadata tx"

text \<open>
  The methods of the class are \<open>getInput\<close>, \<open>getConversion\<close>, \<open>getRCD\<close>, \<open>getTransfers\<close>,
  \<open>getMetadata\<close>, \<open>sign\<close> and \<open>validateSignature\<close>. It has no method \<open>getContent\<close>, which the
  constructor of TransactionBatch calls on each of its transactions.

  \<open>sign(hashed)\<close>: a signature when the key object holds a secret key, else \<open>undefined\<close>;
  \<open>nacl.sign.detached\<close> throws for a secret key that is not 64 bytes long.
\<close>

definition sign :: "env \<Rightarrow> store \<Rightarrow> Transaction \<Rightarrow> buffer \<Rightarrow> error + buffer option" where
  "sign E h tx hashed =
     (case tx_key tx of
        None \<Rightarrow> Inl TypeError
      | Some k \<Rightarrow>
          (case secretKey (key_objs h k) of
             None \<Rightarrow> Inr None
           | Some sk \<Rightarrow>
               if length sk \<noteq> 64 then Inl BadSecretKeySize
               else Inr (Some (detached E hashed sk))))"

text \<open>
  \<open>nacl.sign.detached.verify(msg, sig, publicKey)\<close> tests the two lengths, in this order,
  before it verifies.
\<close>

definition nacl_detached_verify :: "env \<Rightarrow> buffer \<Rightarrow> buffer \<Rightarrow> buffer \<Rightarrow> error + bool" where
  "nacl_detached_verify E msg sg pk =
     (if length sg \<noteq> 64 then Inl BadSignatureSize
      else if length pk \<noteq> 32 then Inl BadPublicKeySize
      else Inr (detached_verify E msg sg pk))"

text \<open>
  \<open>validateSignature(hashed, signature)\<close>: \<open>Buffer.from(this._rcd, 1).slice(1)\<close> is the RCD
  without its first byte, the public key.
\<close>

definition validateSignature ::
  "env \<Rightarrow> Transaction \<Rightarrow> buffer \<Rightarrow> buffer option \<Rightarrow> error + bool" where
  "validateSignature E tx hashed signature =
     (case signature of
        None \<Rightarrow> Inl TransactionNotSigned
      | Some sg \<Rightarrow>
          (case tx_rcd tx of
             None \<Rightarrow> Inl TransactionNotSigned
           | Some rcd \<Rightarrow>
               (case nacl_detached_verify E hashed sg (drop 1 rcd) of
                  Inl e \<Rightarrow> Inl e
                | Inr ok \<Rightarrow> if \<not> ok then Inr False else Inr True)))"

section \<open>The rest of TransactionBuilder: build\<close>

text \<open>The loop of \<open>build()\<close> over \<open>this._transfers\<close>, with the running \<open>sum\<close> (here \<open>acc\<close>).\<close>

fun sum_transfers ::
  "string option \<Rightarrow> transfer_obj option list \<Rightarrow> BigNumber \<Rightarrow> error + BigNumber" where
  "sum_transfers input_address [] acc = Inr acc"
| "sum_transfers input_address (t # ts) acc =
     (case t of
        None \<Rightarrow> Inl MalformedTransferEntry
      | Some e \<Rightarrow>
          (case tr_address e of
             None \<Rightarrow> Inl TransferAddressMissing
           | Some a \<Rightarrow>
               (case tr_amount e of
                  None \<Rightarrow> Inl TransferAmountMissing
                | Some amt \<Rightarrow>
                    if invalid_amount amt then Inl TransferAmountNotPositiveInteger
                    else if input_address = Some a then Inl SelfTransfer
                    else sum_transfers input_address ts (plusBN acc amt))))"

text \<open>
  \<open>build()\<close>. \<open>this._transfers.length\<close> is read after \<open>this._conversion === undefined &&\<close>
  and again by \<open>if (this._transfers.length > 0)\<close>; both reads raise a TypeError when a
  seeded builder has no transfers array. \<open>this._conversion.length === ""\<close> compares a number
  with a string and never holds, so "Conversion string must be specified with input" is never
  raised. The last statement constructs the Transaction.
\<close>

definition build :: "env \<Rightarrow> store \<times> TransactionBuilder \<Rightarrow> error + Transaction" where
  "build E hb =
     (let h = fst hb; b = snd hb; inp = input_objs h (b_input b) in
      case in_amount inp of
        None \<Rightarrow> Inl InputIncomplete
      | Some amt \<Rightarrow>
          if in_address inp = None \<or> in_type inp = None then Inl InputIncomplete
          else if invalid_amount amt then Inl InputAmountNotPositiveInteger
          else if b_conversion b = None \<and> b_transfers b = None then Inl TypeError
          else if b_conversion b = None \<and> map_option (\<lambda>ts. length (transfer_arrays h ts)) (b_transfers b) = Some 0
            then Inl NoConversionOrTransfer
          else if b_conversion b \<noteq> None \<and> b_conversion b = in_type inp then Inl ConversionSameAsInput
          else
            (case b_transfers b of
               None \<Rightarrow> Inl TypeError
             | Some ts \<Rightarrow>
                 (case (if length (transfer_arrays h ts) > 0
                        then (case sum_transfers (in_address inp) (transfer_arrays h ts) (Finite 0) of
                                Inl e \<Rightarrow> Inl e
                              | Inr acc \<Rightarrow>
                                  if \<not> isEqualTo amt acc then Inl TransferSumMismatch else Inr ())
                        else Inr ()) of
                    Inl e \<Rightarrow> Inl e
                  | Inr u \<Rightarrow>
                      if b_timestamp b \<noteq> None \<and> b_signature b = None then Inl MissingSignature
                      else if b_signature b = Some [] then Inl MissingSignature
                      else Transaction_constructor E h (TxFromBuilder b))))"

section \<open>TransactionBatchBuilder (2/TransactionBatchBuilder.js)\<close>

text \<open>Reading an array element: \<open>undefined\<close> beyond the end, as for a hole.\<close>

definition element :: "'a option list \<Rightarrow> nat \<Rightarrow> 'a option" where
  "element xs i = (if i < length xs then xs ! i else None)"

text \<open>Assigning an array element: beyond the end the array grows, leaving holes.\<close>

definition assign_element :: "'a option list \<Rightarrow> nat \<Rightarrow> 'a option \<Rightarrow> 'a option list" where
  "assign_element xs i v =
     (if i < length xs then xs[i := v] else xs @ replicate (i - length xs) None @ [v])"

definition TransactionBatchBuilder_constructor ::
  "store \<Rightarrow> batch_builder_arg \<Rightarrow> store \<times> TransactionBatchBuilder" where
  "TransactionBatchBuilder_constructor h t =
     (case t of
        FromBatch tb \<Rightarrow>
          (h, \<lparr>bb_tokenChainId = token_chain_id, bb_version = 1,
               bb_transactions = tb_transactions tb, bb_signatures = tb_signatures tb,
               bb_timestamp = tb_timestamp tb\<rparr>)
      | NotABatch \<Rightarrow>
          (let a = next_addr h in
           (h\<lparr>transaction_arrays := (transaction_arrays h)(a := []), next_addr := a + 1\<rparr>,
            \<lparr>bb_tokenChainId = token_chain_id, bb_version = 1,
               bb_transactions = Some a, bb_signatures = None, bb_timestamp = None\<rparr>)))"

text \<open>\<open>transaction(tx)\<close> pushes its argument, whatever it is.\<close>

definition TransactionBatchBuilder_transaction ::
  "Transaction option \<Rightarrow> store \<times> TransactionBatchBuilder
     \<Rightarrow> error + (store \<times> TransactionBatchBuilder)" where
  "TransactionBatchBuilder_transaction tx hb =
     (let h = fst hb; bb = snd hb in
      case bb_transactions bb of
        None \<Rightarrow> Inl TypeError
      | Some a \<Rightarrow>
          Inr (h\<lparr>transaction_arrays := (transaction_arrays h)(a := transaction_arrays h a @ [tx])\<rparr>,
               bb))"

text \<open>
  \<open>pkSignature(tx, signature)\<close>. Its first statement tests \<open>t instanceof Transaction\<close>. The
  identifiers bound where the body runs are the two parameters, \<open>this\<close> and \<open>arguments\<close>,
  the seven \<open>const\<close> bindings and the class of the module, and the five bindings every
  module gets. Each is listed with whether its value is a Transaction (\<open>tx\<close> is, for the
  calls considered here). The \<open>find\<close> callback compares input addresses and remembers the
  index of the first match.
\<close>

definition pkSignature_scope :: "(string \<times> bool) list" where
  "pkSignature_scope =
     [(''tx'', True), (''signature'', False), (''this'', False), (''arguments'', False),
      (''constant'', False), (''nacl'', False), (''fctAddressUtil'', False),
      (''fctIdentityUtil'', False), (''BigNumber'', False), (''util'', False),
      (''Transaction'', False), (''TransactionBatchBuilder'', False),
      (''exports'', False), (''require'', False), (''module'', False),
      (''__filename'', False), (''__dirname'', False)]"

fun find_transaction ::
  "store \<Rightarrow> string option \<Rightarrow> Transaction option list \<Rightarrow> nat \<Rightarrow> error + nat option" where
  "find_transaction h address [] i = Inr None"
| "find_transaction h address (o1 # os) i =
     (case o1 of
        None \<Rightarrow> Inl TypeError
      | Some otx \<Rightarrow>
          if in_address (getInput h otx) = address then Inr (Some i)
          else find_transaction h address os (i + 1))"

definition pkSignature_body ::
  "Transaction \<Rightarrow> buffer \<Rightarrow> store \<times> TransactionBatchBuilder
     \<Rightarrow> error + (store \<times> TransactionBatchBuilder)" where
  "pkSignature_body tx signature hb =
     (let h = fst hb; bb = snd hb in
      case bb_transactions bb of
        None \<Rightarrow> Inl TypeError
      | Some a \<Rightarrow>
          (case find_transaction h (in_address (getInput h tx)) (transaction_arrays h a) 0 of
             Inl e \<Rightarrow> Inl e
           | Inr None \<Rightarrow> Inl TransactionNotFound
           | Inr (Some idx) \<Rightarrow>
               (case bb_signatures bb of
                  None \<Rightarrow> Inl TypeError
                | Some sa \<Rightarrow>
                    Inr (h\<lparr>signature_arrays := (signature_arrays h)
                              (sa := assign_element (signature_arrays h sa) idx (Some signature))\<rparr>,
                         bb))))"

definition TransactionBatchBuilder_pkSignature ::
  "Transaction \<Rightarrow> buffer \<Rightarrow> store \<times> TransactionBatchBuilder
     \<Rightarrow> error + (store \<times> TransactionBatchBuilder)" where
  "TransactionBatchBuilder_pkSignature tx signature hb =
     (case map_of pkSignature_scope ''t'' of
        None \<Rightarrow> Inl ReferenceError
      | Some is_transaction \<Rightarrow>
          if is_transaction then pkSignature_body tx signature hb else Inr hb)"

text \<open>
  The loop of \<open>build()\<close>. \<open>this._signatures[i].find(s => s === undefined)\<close> is a TypeError on
  a missing signature; on a signature it searches the bytes, finds none that is \<open>undefined\<close>
  and yields \<open>undefined\<close>, so "Expecting signature for transaction index" is never raised.
\<close>

fun check_transactions ::
  "Transaction option list \<Rightarrow> buffer option list option \<Rightarrow> nat \<Rightarrow> error + unit" where
  "check_transactions [] sigs i = Inr ()"
| "check_transactions (t # ts) sigs i =
     (if t = None then Inl (MalformedTransaction i)
      else
        (case sigs of
           None \<Rightarrow> check_transactions ts sigs (i + 1)
         | Some ss \<Rightarrow>
             (case element ss i of
                None \<Rightarrow> Inl TypeError
              | Some sg \<Rightarrow> check_transactions ts sigs (i + 1))))"

section \<open>TransactionBatch (2/TransactionBatch.js)\<close>

text \<open>
  The \<open>forEach\<close> loops of the constructor. The first one pushes \<open>tx.getContent()\<close> for each
  entry of the array. On an entry that is \<open>undefined\<close> the call raises a TypeError; on a
  Transaction it raises a TypeError as well, since the class has no method of that name
  ("tx.getContent is not a function"). So the loop ends normally on the empty array only.
\<close>

fun contents :: "Transaction option list \<Rightarrow> error + metadata_value list" where
  "contents [] = Inr []"
| "contents (t # ts) = Inl TypeError"

fun sign_each ::
  "env \<Rightarrow> store \<Rightarrow> (nat \<Rightarrow> buffer) \<Rightarrow> nat \<Rightarrow> Transaction option list
     \<Rightarrow> error + buffer option list" where
  "sign_each E h marshalled idx [] = Inr []"
| "sign_each E h marshalled idx (t # ts) =
     (case t of
        None \<Rightarrow> Inl TypeError
      | Some tx \<Rightarrow>
          (case sign E h tx (sha512 E (marshalled idx)) of
             Inl e \<Rightarrow> Inl e
           | Inr sg \<Rightarrow>
               (case sign_each E h marshalled (idx + 1) ts of
                  Inl e \<Rightarrow> Inl e
                | Inr sgs \<Rightarrow> Inr (sg # sgs))))"

text \<open>
  Second pass: a transaction without RCD makes the constructor read \<open>builder._keys[idx]\<close>,
  and \<open>_keys\<close> is a property that no TransactionBatchBuilder has.
\<close>

fun collect_rcds :: "Transaction option list \<Rightarrow> error + buffer option list" where
  "collect_rcds [] = Inr []"
| "collect_rcds (t # ts) =
     (case t of
        None \<Rightarrow> Inl TypeError
      | Some tx \<Rightarrow>
          (case getRCD tx of
             None \<Rightarrow> Inl TypeError
           | Some rcd \<Rightarrow>
               (case collect_rcds ts of Inl e \<Rightarrow> Inl e | Inr rs \<Rightarrow> Inr (Some rcd # rs))))"

text \<open>\<open>for (i < rcds.length) { extIds.push(rcds[i]); extIds.push(signatures[i]) }\<close>\<close>

definition push_pairs :: "buffer option list \<Rightarrow> buffer option list \<Rightarrow> buffer option list" where
  "push_pairs rcds signatures =
     concat (map (\<lambda>i. [element rcds i, element signatures i]) [0..<length rcds])"

text \<open>
  \<open>new TransactionBatch(builder)\<close>; \<open>unixSeconds\<close> is what the clock gives for
  \<open>Math.round(new Date().getTime() / 1000)\<close>. With signatures in the builder (second pass)
  the batch takes the builder's signatures and timestamp, and \<open>builder._content\<close>, a
  property that no TransactionBatchBuilder has. Without them (first pass) it collects the
  contents of the transactions, serialises them, lets every transaction sign and, when all of
  them did, fills \<open>extIds\<close>; the new signatures array is allocated in the store.
\<close>

definition TransactionBatch_constructor ::
  "env \<Rightarrow> nat \<Rightarrow> store \<Rightarrow> batch_arg \<Rightarrow> error + (store \<times> TransactionBatch)" where
  "TransactionBatch_constructor E unixSeconds h builder =
     (case builder of
        BatchFromObject r \<Rightarrow>
          if br_transactions r = None then Inl MustIncludeTransactions
          else
            Inr (h, \<lparr>tb_transactions = None, tb_tokenChainId = None, tb_timestamp = br_timestamp r,
                     tb_extIds = None, tb_rcds = None, tb_content = None, tb_signatures = None,
                     tb_entryhash = br_entryhash r, tb_pending = br_pending r\<rparr>)
      | BatchFromBuilder bb \<Rightarrow>
          (case bb_transactions bb of
             None \<Rightarrow> Inl TypeError
           | Some a \<Rightarrow>
               (let txs = transaction_arrays h a in
                case bb_signatures bb of
                  Some sa \<Rightarrow>
                    (case collect_rcds txs of
                       Inl e \<Rightarrow> Inl e
                     | Inr rcds \<Rightarrow>
                         if length rcds \<noteq> length (signature_arrays h sa) then Inl RcdSignatureMismatch
                         else
                           (case bb_timestamp bb of
                              None \<Rightarrow> Inl TypeError
                            | Some ts \<Rightarrow>
                                Inr (h, \<lparr>tb_transactions = Some a,
                                         tb_tokenChainId = Some (bb_tokenChainId bb),
                                         tb_timestamp = Some ts,
                                         tb_extIds = Some (Some (toString ts)
                                                      # push_pairs rcds (signature_arrays h sa)),
                                         tb_rcds = Some rcds, tb_content = None,
                                         tb_signatures = Some sa,
                                         tb_entryhash = None, tb_pending = None\<rparr>)))
                | None \<Rightarrow>
                    (case contents txs of
                       Inl e \<Rightarrow> Inl e
                     | Inr cs \<Rightarrow>
                         (let content = stringify E (1, cs) in
                          case sign_each E h
                                 (\<lambda>idx. marshal idx unixSeconds (bb_tokenChainId bb) content) 0 txs of
                            Inl e \<Rightarrow> Inl e
                          | Inr sigs \<Rightarrow>
                              (let valid = list_all (\<lambda>sg. sg \<noteq> None) sigs;
                                   rcds = map (\<lambda>t. Option.bind t getRCD) txs;
                                   sa = next_addr h in
                               Inr (h\<lparr>signature_arrays := (signature_arrays h)(sa := sigs),
                                       next_addr := sa + 1\<rparr>,
                                    \<lparr>tb_transactions = Some a,
                                       tb_tokenChainId = Some (bb_tokenChainId bb),
                                       tb_timestamp = Some unixSeconds,
                                       tb_extIds = Some (Some (toString unixSeconds)
                                                    # (if valid then push_pairs rcds sigs else [])),
                                       tb_rcds = (if valid then Some rcds else None),
                                       tb_content = Some content,
                                       tb_signatures = Some sa,
                                       tb_entryhash = None, tb_pending = None\<rparr>)))))))"

text \<open>\<open>TransactionBatchBuilder.build()\<close>, which ends by constructing the batch.\<close>

definition TransactionBatchBuilder_build ::
  "env \<Rightarrow> nat \<Rightarrow> store \<times> TransactionBatchBuilder \<Rightarrow> error + (store \<times> TransactionBatch)" where
  "TransactionBatchBuilder_build E unixSeconds hb =
     (let h = fst hb; bb = snd hb in
      case bb_transactions bb of
        None \<Rightarrow> Inl TypeError
      | Some a \<Rightarrow>
          (let txs = transaction_arrays h a;
               sigs = map_option (signature_arrays h) (bb_signatures bb) in
           if length txs = 0 then Inl NoTransactionsSpecified
           else if sigs \<noteq> None \<and> map_option length sigs \<noteq> Some (length txs)
             then Inl SignatureCountMismatch
           else
             (case check_transactions txs sigs 0 of
                Inl e \<Rightarrow> Inl e
              | Inr u \<Rightarrow> TransactionBatch_constructor E unixSeconds h (BatchFromBuilder bb))))"

text \<open>
  \<open>getMarshalDataSig(tb, inputIndex)\<close>; \<open>toString\<close> and \<open>Buffer.from\<close> raise a TypeError on a
  property that is \<open>undefined\<close>.
\<close>

definition getMarshalDataSig :: "TransactionBatch \<Rightarrow> nat \<Rightarrow> error + buffer" where
  "getMarshalDataSig tb inputIndex =
     (case tb_timestamp tb of
        None \<Rightarrow> Inl TypeError
      | Some ts \<Rightarrow>
          (case tb_tokenChainId tb of
             None \<Rightarrow> Inl TypeError
           | Some chain \<Rightarrow>
               (case tb_content tb of
                  None \<Rightarrow> Inl TypeError
                | Some content \<Rightarrow> Inr (marshal inputIndex ts chain content))))"

text \<open>
  \<open>validateSignatures()\<close> reads \<open>this._signature\<close> and \<open>this._rcd\<close>. The constructor assigns
  \<open>_signatures\<close> and \<open>_rcds\<close>; the two properties read here are assigned on no path, so both
  read as \<open>undefined\<close> on every batch.
\<close>

definition tb_signature :: "TransactionBatch \<Rightarrow> buffer option list option" where
  "tb_signature tb = None"

definition tb_rcd :: "TransactionBatch \<Rightarrow> buffer option list option" where
  "tb_rcd tb = None"

fun validate_each ::
  "env \<Rightarrow> TransactionBatch \<Rightarrow> buffer option list \<Rightarrow> nat \<Rightarrow> Transaction option list
     \<Rightarrow> error + bool" where
  "validate_each E tb sigs i [] = Inr True"
| "validate_each E tb sigs i (t # ts) =
     (case t of
        None \<Rightarrow> Inl TypeError
      | Some tx \<Rightarrow>
          (case getMarshalDataSig tb i of
             Inl e \<Rightarrow> Inl e
           | Inr m \<Rightarrow>
               (case validateSignature E tx (sha512 E m) (element sigs i) of
                  Inl e \<Rightarrow> Inl e
                | Inr ok \<Rightarrow>
                    if \<not> ok then Inl (InvalidTransactionSignature i)
                    else validate_each E tb sigs (i + 1) ts)))"

definition validateSignatures :: "env \<Rightarrow> store \<Rightarrow> TransactionBatch \<Rightarrow> error + bool" where
  "validateSignatures E h tb =
     (case tb_signature tb of
        None \<Rightarrow> Inl TransactionNotSigned
      | Some sigs \<Rightarrow>
          (case tb_rcd tb of
             None \<Rightarrow> Inl TransactionNotSigned
           | Some rcds \<Rightarrow>
               (case tb_transactions tb of
                  None \<Rightarrow> Inl TypeError
                | Some a \<Rightarrow> validate_each E tb sigs 0 (transaction_arrays h a))))"

section \<open>Example values\<close>

text \<open>
  Stand-ins for the libraries, used to run the definitions on concrete inputs: a private
  address starts with \<open>Fs\<close>, a public one with \<open>FA\<close>, the rest of the address is the key
  seed and the public key, the secret key is the seed followed by the public key, and a
  signature is the first 32 bytes of the secret key followed by the first 32 bytes of the
  padded message.
\<close>

definition example_pad :: string where
  "example_pad = ''0000000000000000000000000000000000000000000000000000000000000000''"

definition example_env :: env where
  "example_env =
     \<lparr>isValidPrivateAddress = (\<lambda>s. take 2 s = ''Fs''),
      isValidPublicFctAddress = (\<lambda>s. take 2 s = ''FA''),
      addressToKey = (\<lambda>s. drop 2 s),
      getPublicAddress = (\<lambda>s. ''FA'' @ drop 2 s),
      keyToPublicFctAddress = (\<lambda>k. ''FA'' @ k),
      keyPair_fromSeed = (\<lambda>seed. (seed, seed @ seed)),
      detached = (\<lambda>m sk. take 32 sk @ take 32 (m @ example_pad)),
      detached_verify = (\<lambda>m sg pk. sg = pk @ take 32 (m @ example_pad)),
      sha512 = (\<lambda>m. m),
      RCD_TYPE_1 = [CHR 0x01],
      stringify = (\<lambda>vc. toString (fst vc)
                            @ concat (map (\<lambda>c. case c of Json j \<Rightarrow> j | Cyclic \<Rightarrow> []) (snd vc)))\<rparr>"

definition empty_store :: store where
  "empty_store =
     \<lparr>input_objs = (\<lambda>a. \<lparr>in_address = None, in_amount = None, in_type = None\<rparr>),
      transfer_arrays = (\<lambda>a. []),
      key_objs = (\<lambda>a. \<lparr>pubaddr = None, publicKey = None, secretKey = None\<rparr>),
      transaction_arrays = (\<lambda>a. []),
      signature_arrays = (\<lambda>a. []),
      next_addr = 0\<rparr>"

text \<open>A batch as the constructor leaves it, with the given timestamp and content.\<close>

definition batch_at :: "nat \<Rightarrow> string \<Rightarrow> TransactionBatch" where
  "batch_at ts content =
     \<lparr>tb_transactions = Some 0, tb_tokenChainId = Some token_chain_id, tb_timestamp = Some ts,
      tb_extIds = Some [Some (toString ts)], tb_rcds = None, tb_content = Some content,
      tb_signatures = Some 1, tb_entryhash = None, tb_pending = None\<rparr>"

text \<open>Method chaining, \<open>x.f(...).g(...)\<close>: the first exception ends the chain.\<close>

definition chain :: "error + 'a \<Rightarrow> ('a \<Rightarrow> error + 'b) \<Rightarrow> error + 'b" where
  "chain r f = (case r of Inl e \<Rightarrow> Inl e | Inr x \<Rightarrow> f x)"

text \<open>
  \<open>new TransactionBuilder().input("pFCT", fs, x).transfer(fa, y)\<close> in the empty store.
\<close>

definition example_transfer ::
  "string \<Rightarrow> rat \<Rightarrow> string \<Rightarrow> rat \<Rightarrow> error + (store \<times> TransactionBuilder)" where
  "example_transfer fs x fa y =
     chain (chain (TransactionBuilder_constructor empty_store NoArgument)
              (input example_env (Some ''pFCT'') fs (Some (Finite x))))
       (transfer example_env fa (Some (Finite y)))"

text \<open>
  \<open>new TransactionBuilder().input("pFCT", fs, x)\<close>, and the same followed by
  \<open>.conversion(c)\<close>.
\<close>

definition example_input :: "string \<Rightarrow> rat \<Rightarrow> error + (store \<times> TransactionBuilder)" where
  "example_input fs x =
     chain (TransactionBuilder_constructor empty_store NoArgument)
       (input example_env (Some ''pFCT'') fs (Some (Finite x)))"

definition example_conversion ::
  "string \<Rightarrow> rat \<Rightarrow> string \<Rightarrow> error + (store \<times> TransactionBuilder)" where
  "example_conversion fs x c = chain (example_input fs x) (conversion (Some c))"

text \<open>
  A transaction built in a given store by
  \<open>new TransactionBuilder().input("pFCT", fs, x).transfer("FAxyz", x).build()\<close>, and a batch
  builder to which two such transactions, of the private addresses \<open>Fsabc\<close> and \<open>Fsdef\<close>,
  have been added.
\<close>

definition example_tx_in :: "store \<Rightarrow> string \<Rightarrow> rat \<Rightarrow> error + (store \<times> Transaction)" where
  "example_tx_in h fs x =
     chain (chain (chain (TransactionBuilder_constructor h NoArgument)
                     (input example_env (Some ''pFCT'') fs (Some (Finite x))))
              (transfer example_env ''FAxyz'' (Some (Finite x))))
       (\<lambda>hb. chain (build example_env hb) (\<lambda>tx. Inr (fst hb, tx)))"

definition example_batch_builder :: "error + (store \<times> TransactionBatchBuilder)" where
  "example_batch_builder =
     chain (example_tx_in empty_store ''Fsabc'' 150)
       (\<lambda>r1. chain (example_tx_in (fst r1) ''Fsdef'' 7)
          (\<lambda>r2. chain (TransactionBatchBuilder_transaction (Some (snd r1))
                          (TransactionBatchBuilder_constructor (fst r2) NotABatch))
                   (TransactionBatchBuilder_transaction (Some (snd r2)))))"

text \<open>
  Two keys of 32 bytes, the private and the public address of the first and the public
  address of the second.
\<close>

definition example_key :: buffer where
  "example_key = ''abcdefghijklmnopqrstuvwxyz012345''"

definition example_other_key :: buffer where
  "example_other_key = ''ABCDEFGHIJKLMNOPQRSTUVWXYZ012345''"

definition example_fs :: string where
  "example_fs = ''Fsabcdefghijklmnopqrstuvwxyz012345''"

definition example_fa :: string where
  "example_fa = ''FAabcdefghijklmnopqrstuvwxyz012345''"

definition example_other_fa :: string where
  "example_other_fa = ''FAABCDEFGHIJKLMNOPQRSTUVWXYZ012345''"

text \<open>
  \<open>owner = new TransactionBuilder().input("pFCT", fs, 150).transfer("FAxyz", 150)\<close> for the
  private address of the first key, and \<open>member = owner.build()\<close>.
\<close>

definition example_owner :: "store \<times> TransactionBuilder" where
  "example_owner = projr (example_transfer example_fs 150 ''FAxyz'' 150)"

definition example_member :: Transaction where
  "example_member = projr (build example_env example_owner)"

text \<open>
  Then \<open>batchBuilder = new TransactionBatchBuilder()\<close>,
  \<open>batch = new TransactionBatch(batchBuilder)\<close> at second 1550696040, and
  \<open>batchBuilder.transaction(member)\<close>.
\<close>

definition example_empty_builder :: "store \<times> TransactionBatchBuilder" where
  "example_empty_builder = TransactionBatchBuilder_constructor (fst example_owner) NotABatch"

definition example_empty_batch :: "store \<times> TransactionBatch" where
  "example_empty_batch =
     projr (TransactionBatch_constructor example_env 1550696040 (fst example_empty_builder)
              (BatchFromBuilder (snd example_empty_builder)))"

definition example_filled :: "store \<times> TransactionBatchBuilder" where
  "example_filled =
     projr (TransactionBatchBuilder_transaction (Some example_member)
              (fst example_empty_batch, snd example_empty_builder))"

text \<open>\<open>new TransactionBatchBuilder().transaction(member)\<close>, made once \<open>member\<close> exists.\<close>

definition example_first_pass :: "store \<times> TransactionBatchBuilder" where
  "example_first_pass =
     projr (TransactionBatchBuilder_transaction (Some example_member)
              (TransactionBatchBuilder_constructor (fst example_owner) NotABatch))"

text \<open>
  After that, a second transaction builder, the same after \<open>input("PEG", fa, 7)\<close> for the
  public address of the second key, and a second batch builder.
\<close>

definition example_hb2 :: "store \<times> TransactionBuilder" where
  "example_hb2 = projr (TransactionBuilder_constructor (fst example_filled) NoArgument)"

definition example_hb2_input :: "store \<times> TransactionBuilder" where
  "example_hb2_input =
     projr (input example_env (Some ''PEG'') example_other_fa (Some (Finite 7)) example_hb2)"

definition example_bb2 :: "store \<times> TransactionBatchBuilder" where
  "example_bb2 = TransactionBatchBuilder_constructor (fst example_filled) NotABatch"

text \<open>
  A batch constructed from a response object whose (empty) transactions array lies at
  address 0, and \<open>new TransactionBatchBuilder(batch)\<close> for that batch.
\<close>

definition example_response :: batch_response where
  "example_response =
     \<lparr>br_transactions = Some 0,
      br_entryhash = Some ''68f3ca3a8c9f7a0cb32dc9717347cb179b63096e051a60ce8be9c292d29795af'',
      br_timestamp = Some 1550696040, br_pending = Some False\<rparr>"

definition example_response_batch :: "store \<times> TransactionBatch" where
  "example_response_batch =
     projr (TransactionBatch_constructor example_env 1550696040 (empty_store\<lparr>next_addr := 1\<rparr>)
              (BatchFromObject example_response))"

definition example_seeded_builder :: "store \<times> TransactionBatchBuilder" where
  "example_seeded_builder =
     TransactionBatchBuilder_constructor (fst example_response_batch)
       (FromBatch (snd example_response_batch))"

section \<open>The conservation law in the words of the specification\<close>

text \<open>
  The sum of the transfer amounts, when every entry of the array has a finite amount, and
  the property that it equals the input amount.
\<close>

fun transfer_total :: "transfer_obj option list \<Rightarrow> rat option" where
  "transfer_total [] = Some 0"
| "transfer_total (e # es) =
     (case e of
        Some t \<Rightarrow>
          (case tr_amount t of
             Some (Finite x) \<Rightarrow> map_option (\<lambda>s. x + s) (transfer_total es)
           | _ \<Rightarrow> None)
      | None \<Rightarrow> None)"

definition conserved :: "store \<times> TransactionBuilder \<Rightarrow> bool" where
  "conserved hb =
     (case b_transfers (snd hb) of
        None \<Rightarrow> False
      | Some ts \<Rightarrow>
          (case in_amount (input_objs (fst hb) (b_input (snd hb))) of
             Some (Finite q) \<Rightarrow> transfer_total (transfer_arrays (fst hb) ts) = Some q
           | _ \<Rightarrow> False))"

definition has_transfers :: "store \<times> TransactionBuilder \<Rightarrow> bool" where
  "has_transfers hb =
     (case b_transfers (snd hb) of
        None \<Rightarrow> False
      | Some ts \<Rightarrow> transfer_arrays (fst hb) ts \<noteq> [])"

text \<open>
  What \<open>build()\<close> checks before it compares the sum: the input is complete and its amount a
  non-negative integer, the conversion is unset or differs from the type of the input, and
  every transfer has an address other than the input address and a non-negative integer
  amount. (With at least one transfer the test for "neither conversion nor transfers" passes.)
\<close>

definition transfer_entry_ok :: "string option \<Rightarrow> transfer_obj option \<Rightarrow> bool" where
  "transfer_entry_ok input_address e =
     (case e of
        None \<Rightarrow> False
      | Some t \<Rightarrow>
          (case tr_amount t of
             None \<Rightarrow> False
           | Some amt \<Rightarrow>
               tr_address t \<noteq> None \<and> tr_address t \<noteq> input_address
               \<and> isInteger amt \<and> \<not> isLessThan amt (Finite 0)))"

definition checks_before_sum :: "store \<times> TransactionBuilder \<Rightarrow> bool" where
  "checks_before_sum hb =
     (let inp = input_objs (fst hb) (b_input (snd hb)) in
      in_address inp \<noteq> None \<and> in_type inp \<noteq> None
      \<and> (case in_amount inp of
            None \<Rightarrow> False
          | Some amt \<Rightarrow> isInteger amt \<and> \<not> isLessThan amt (Finite 0))
      \<and> (b_conversion (snd hb) = None \<or> b_conversion (snd hb) \<noteq> in_type inp)
      \<and> (case b_transfers (snd hb) of
            None \<Rightarrow> False
          | Some ts \<Rightarrow> list_all (transfer_entry_ok (in_address inp)) (transfer_arrays (fst hb) ts)))"

text \<open>
  A builder with a conversion and a transfer at once: \<open>new TransactionBuilder(tx)\<close> for the
  transaction \<open>tx\<close> constructed from a response object with the input 150 \<open>pFCT\<close> (the object
  at address 0), the conversion \<open>PEG\<close> and one transfer of 151 (the array at address 1).
\<close>

definition example_response_store :: store where
  "example_response_store =
     empty_store
       \<lparr>input_objs := (input_objs empty_store)
          (0 := \<lparr>in_address = Some ''FAabc'', in_amount = Some (Finite 150), in_type = Some ''pFCT''\<rparr>),
        transfer_arrays := (transfer_arrays empty_store)
          (1 := [Some \<lparr>tr_address = Some ''FAxyz'', tr_amount = Some (Finite 151)\<rparr>]),
        next_addr := 2\<rparr>"

definition example_response_tx :: Transaction where
  "example_response_tx =
     projr (Transaction_constructor example_env example_response_store
              (TxFromObject \<lparr>r_input = Some 0, r_conversion = Some ''PEG'',
                              r_transfers = Some 1, r_metadata = None, r_entryhash = None,
                              r_timestamp = None, r_pending = None\<rparr>))"

definition example_both :: "store \<times> TransactionBuilder" where
  "example_both =
     projr (TransactionBuilder_constructor example_response_store
              (FromTransaction example_response_tx))"

section \<open>The fields of an instance\<close>

text \<open>
  What the fields of a constructed instance hold in a given store: for a Transaction its
  input, transfers, conversion, metadata, key and RCD; for a TransactionBatch its
  transactions, each with its fields, its content, timestamp, signatures, \<open>extIds\<close> and
  RCDs.
\<close>

definition Transaction_fields ::
  "store \<Rightarrow> Transaction
     \<Rightarrow> input_obj \<times> transfer_obj option list option \<times> string option \<times> metadata_value option
         \<times> key_obj option \<times> buffer option" where
  "Transaction_fields h tx =
     (getInput h tx, getTransfers h tx, getConversion tx, getMetadata tx,
      map_option (key_objs h) (tx_key tx), getRCD tx)"

definition batch_entries :: "store \<Rightarrow> TransactionBatch \<Rightarrow> Transaction option list option" where
  "batch_entries h tb = map_option (transaction_arrays h) (tb_transactions tb)"

definition TransactionBatch_fields ::
  "store \<Rightarrow> TransactionBatch
     \<Rightarrow> (input_obj \<times> transfer_obj option list option \<times> string option \<times> metadata_value option
          \<times> key_obj option \<times> buffer option) option list option
         \<times> string option \<times> nat option
         \<times> buffer option list option \<times> buffer option list option \<times> buffer option list option" where
  "TransactionBatch_fields h tb =
     (map_option (map (map_option (Transaction_fields h))) (batch_entries h tb),
      tb_content tb, tb_timestamp tb,
      map_option (signature_arrays h) (tb_signatures tb), tb_extIds tb, tb_rcds tb)"

text \<open>
  A transaction shares an object with a builder when its input object, its transfers array
  or its key object is the builder's; a batch shares its transactions array with a batch
  builder. The objects of a transaction are allocated when their addresses are below the
  next free address of the store. A batch is apart from a builder when each of its
  transactions is allocated and shares no object with the builder.
\<close>

definition shares_objects :: "Transaction \<Rightarrow> TransactionBuilder \<Rightarrow> bool" where
  "shares_objects tx b =
     (tx_input tx = b_input b
      \<or> (tx_transfers tx \<noteq> None \<and> tx_transfers tx = b_transfers b)
      \<or> (tx_key tx \<noteq> None \<and> tx_key tx = b_key b))"

definition shares_transactions :: "TransactionBatch \<Rightarrow> TransactionBatchBuilder \<Rightarrow> bool" where
  "shares_transactions tb bb =
     (tb_transactions tb \<noteq> None \<and> tb_transactions tb = bb_transactions bb)"

definition allocated :: "store \<Rightarrow> Transaction \<Rightarrow> bool" where
  "allocated h tx =
     (tx_input tx < next_addr h
      \<and> (case tx_transfers tx of None \<Rightarrow> True | Some ts \<Rightarrow> ts < next_addr h)
      \<and> (case tx_key tx of None \<Rightarrow> True | Some k \<Rightarrow> k < next_addr h))"

definition apart :: "store \<Rightarrow> TransactionBatch \<Rightarrow> TransactionBuilder \<Rightarrow> bool" where
  "apart h tb b =
     (case batch_entries h tb of
        None \<Rightarrow> True
      | Some entries \<Rightarrow>
          list_all (\<lambda>t. case t of None \<Rightarrow> True
                        | Some tx \<Rightarrow> allocated h tx \<and> \<not> shares_objects tx b) entries)"

section \<open>Numbers as text\<close>

lemma toString_small: "n < 10 \<Longrightarrow> toString n = [decimal_digit n]"
  by (subst toString.simps) simp

lemma toString_big:
  "\<not> n < 10 \<Longrightarrow> toString n = toString (n div 10) @ [decimal_digit (n mod 10)]"
  by (subst toString.simps) simp

lemma toString_not_Nil: "toString n \<noteq> []"
  by (subst toString.simps) simp

lemma decimal_digit_inj:
  assumes "a < 10" and "b < 10" and "decimal_digit a = decimal_digit b"
  shows "a = b"
proof -
  have d: "distinct ''0123456789''" by simp
  have l: "length ''0123456789'' = 10" by simp
  from assms(3) have "''0123456789'' ! a = ''0123456789'' ! b"
    by (simp add: decimal_digit_def)
  with d assms(1,2) l show "a = b" by (simp only: nth_eq_iff_index_eq)
qed

lemma toString_inj: "toString n = toString m \<Longrightarrow> n = m"
proof (induction n arbitrary: m rule: toString.induct)
  case (1 n)
  show ?case
  proof (cases "n < 10")
    case True
    note n = this
    show ?thesis
    proof (cases "m < 10")
      case True
      with n "1.prems" show ?thesis
        by (simp add: toString_small decimal_digit_inj)
    next
      case False
      with n "1.prems" have "[decimal_digit n] = toString (m div 10) @ [decimal_digit (m mod 10)]"
        by (simp add: toString_small toString_big)
      then have "toString (m div 10) = []" by simp
      then show ?thesis by (simp add: toString_not_Nil)
    qed
  next
    case False
    note n = this
    show ?thesis
    proof (cases "m < 10")
      case True
      with n "1.prems" have "toString (n div 10) @ [decimal_digit (n mod 10)] = [decimal_digit m]"
        by (simp add: toString_small toString_big)
      then have "toString (n div 10) = []" by simp
      then show ?thesis by (simp add: toString_not_Nil)
    next
      case False
      with n "1.prems" have e: "toString (n div 10) = toString (m div 10)"
        and d: "decimal_digit (n mod 10) = decimal_digit (m mod 10)"
        by (simp_all add: toString_big)
      from "1.IH" [OF n e] have q: "n div 10 = m div 10" .
      from d have r: "n mod 10 = m mod 10" by (simp add: decimal_digit_inj)
      from q r show ?thesis by (metis div_mult_mod_eq)
    qed
  qed
qed

section \<open>Marshal-for-signature\<close>

lemma getMarshalDataSig_marshal:
  "tb_timestamp tb = Some t \<Longrightarrow> tb_tokenChainId tb = Some c \<Longrightarrow> tb_content tb = Some k
     \<Longrightarrow> getMarshalDataSig tb i = Inr (marshal i t c k)"
  by (simp add: getMarshalDataSig_def)

lemma marshal_index: "marshal i t c k = marshal i' t c k \<Longrightarrow> i = i'"
  by (auto simp: marshal_def dest: toString_inj)

lemma marshal_timestamp: "marshal i t c k = marshal i t' c k \<Longrightarrow> t = t'"
  by (auto simp: marshal_def dest: toString_inj)

lemma marshal_chain: "marshal i t c k = marshal i t c' k \<Longrightarrow> hexDecode c = hexDecode c'"
  by (auto simp: marshal_def)

lemma marshal_content: "marshal i t c k = marshal i t c k' \<Longrightarrow> k = k'"
  by (auto simp: marshal_def)

text \<open>
  C2, as the code has it. \<open>getMarshalDataSig\<close> is a function of the index, the timestamp, the
  chain identifier and the content, and returns the concatenation
  \<open>index || timestamp || chainId || content\<close> in that order. Changing one of the four while
  the other three stay as they are changes the output (for the chain identifier: changing the
  bytes that the hexadecimal string decodes to).
\<close>

theorem getMarshalDataSig_one_field:
  "tb_timestamp tb = Some t \<Longrightarrow> tb_tokenChainId tb = Some c \<Longrightarrow> tb_content tb = Some k \<Longrightarrow>
     getMarshalDataSig tb i = Inr (toString i @ toString t @ hexDecode c @ k)
     \<and> (i' \<noteq> i \<longrightarrow> getMarshalDataSig tb i' \<noteq> getMarshalDataSig tb i)
     \<and> (t' \<noteq> t \<longrightarrow>
          getMarshalDataSig (tb\<lparr>tb_timestamp := Some t'\<rparr>) i \<noteq> getMarshalDataSig tb i)
     \<and> (hexDecode c' \<noteq> hexDecode c \<longrightarrow>
          getMarshalDataSig (tb\<lparr>tb_tokenChainId := Some c'\<rparr>) i \<noteq> getMarshalDataSig tb i)
     \<and> (k' \<noteq> k \<longrightarrow>
          getMarshalDataSig (tb\<lparr>tb_content := Some k'\<rparr>) i \<noteq> getMarshalDataSig tb i)"
proof -
  assume t: "tb_timestamp tb = Some t" and c: "tb_tokenChainId tb = Some c"
    and k: "tb_content tb = Some k"
  have m: "getMarshalDataSig tb j = Inr (marshal j t c k)" for j
    using t c k by (rule getMarshalDataSig_marshal)
  have mt: "getMarshalDataSig (tb\<lparr>tb_timestamp := Some t'\<rparr>) i = Inr (marshal i t' c k)"
    using c k by (simp add: getMarshalDataSig_def)
  have mc: "getMarshalDataSig (tb\<lparr>tb_tokenChainId := Some c'\<rparr>) i = Inr (marshal i t c' k)"
    using t k by (simp add: getMarshalDataSig_def)
  have mk: "getMarshalDataSig (tb\<lparr>tb_content := Some k'\<rparr>) i = Inr (marshal i t c k')"
    using t c by (simp add: getMarshalDataSig_def)
  have 1: "getMarshalDataSig tb i = Inr (toString i @ toString t @ hexDecode c @ k)"
    by (simp add: m marshal_def)
  have 2: "i' \<noteq> i \<longrightarrow> getMarshalDataSig tb i' \<noteq> getMarshalDataSig tb i"
    using marshal_index [of i' t c k i] by (auto simp: m)
  have 3: "t' \<noteq> t \<longrightarrow>
      getMarshalDataSig (tb\<lparr>tb_timestamp := Some t'\<rparr>) i \<noteq> getMarshalDataSig tb i"
    using marshal_timestamp [of i t' c k t] by (auto simp: m mt)
  have 4: "hexDecode c' \<noteq> hexDecode c \<longrightarrow>
      getMarshalDataSig (tb\<lparr>tb_tokenChainId := Some c'\<rparr>) i \<noteq> getMarshalDataSig tb i"
    using marshal_chain [of i t c' k c] by (auto simp: m mc)
  have 5: "k' \<noteq> k \<longrightarrow>
      getMarshalDataSig (tb\<lparr>tb_content := Some k'\<rparr>) i \<noteq> getMarshalDataSig tb i"
    using marshal_content [of i t c k' k] by (auto simp: m mk)
  from 1 2 3 4 5 show ?thesis by blast
qed

theorem getMarshalDataSig_one_field_witness:
  "getMarshalDataSig (batch_at 1550696040 ''1FAab'') 0
     = Inr (toString 0 @ toString 1550696040 @ hexDecode token_chain_id @ ''1FAab'')
   \<and> getMarshalDataSig (batch_at 1550696040 ''1FAab'') 1
       \<noteq> getMarshalDataSig (batch_at 1550696040 ''1FAab'') 0
   \<and> getMarshalDataSig ((batch_at 1550696040 ''1FAab'')\<lparr>tb_timestamp := Some 1550696041\<rparr>) 0
       \<noteq> getMarshalDataSig (batch_at 1550696040 ''1FAab'') 0
   \<and> getMarshalDataSig ((batch_at 1550696040 ''1FAab'')\<lparr>tb_tokenChainId := Some ''cffd''\<rparr>) 0
       \<noteq> getMarshalDataSig (batch_at 1550696040 ''1FAab'') 0
   \<and> getMarshalDataSig ((batch_at 1550696040 ''1FAab'')\<lparr>tb_content := Some ''1FAac''\<rparr>) 0
       \<noteq> getMarshalDataSig (batch_at 1550696040 ''1FAab'') 0"
proof -
  have t: "tb_timestamp (batch_at 1550696040 ''1FAab'') = Some 1550696040"
    and c: "tb_tokenChainId (batch_at 1550696040 ''1FAab'') = Some token_chain_id"
    and k: "tb_content (batch_at 1550696040 ''1FAab'') = Some ''1FAab''"
    by (simp_all add: batch_at_def)
  have ne: "hexDecode ''cffd'' \<noteq> hexDecode token_chain_id"
    by (simp add: token_chain_id_def hexval_def hex_digits_def)
  have n1: "(1::nat) \<noteq> 0" and n2: "(1550696041::nat) \<noteq> 1550696040"
    and n3: "''1FAac'' \<noteq> ''1FAab''"
    by simp_all
  from getMarshalDataSig_one_field [OF t c k, of 0 1 1550696041 "''cffd''" "''1FAac''"]
    ne n1 n2 n3
  show ?thesis by blast
qed

text \<open>
  C2, as stated, fails: the four parts are concatenated without separators, so two inputs
  that differ in index and timestamp can marshal to the same bytes. Index 1 at second
  1550696040 and index 11 at second 550696040 both begin \<open>11550696040\<close>.
\<close>

theorem getMarshalDataSig_collision:
  "(1::nat, 1550696040::nat) \<noteq> (11, 550696040)
   \<and> getMarshalDataSig (batch_at 1550696040 ''1FAab'') 1
       = getMarshalDataSig (batch_at 550696040 ''1FAab'') 11"
  by (simp add: getMarshalDataSig_def batch_at_def marshal_def toString_small toString_big
      decimal_digit_def)

section \<open>Conservation\<close>

lemma valid_amount_Finite: "\<not> invalid_amount amt \<Longrightarrow> \<exists>q. amt = Finite q"
  by (cases amt) (simp_all add: invalid_amount_def)

lemma sum_transfers_Inr:
  "sum_transfers a ts (Finite x) = Inr r
     \<Longrightarrow> \<exists>s. transfer_total ts = Some s \<and> r = Finite (x + s)"
proof (induction ts arbitrary: x)
  case Nil
  then show ?case by simp
next
  case (Cons e es)
  from Cons.prems obtain t addr amt where e: "e = Some t" and ad: "tr_address t = Some addr"
    and am: "tr_amount t = Some amt" and v: "\<not> invalid_amount amt"
    and rest: "sum_transfers a es (plusBN (Finite x) amt) = Inr r"
    by (auto split: option.splits if_splits)
  from v obtain q where q: "amt = Finite q" using valid_amount_Finite by blast
  from rest q have "sum_transfers a es (Finite (x + q)) = Inr r" by simp
  from Cons.IH [OF this] obtain s where s: "transfer_total es = Some s"
    and r: "r = Finite (x + q + s)"
    by blast
  from e am q s r show ?case by (simp add: add.assoc)
qed

lemma sum_transfers_ok:
  "list_all (transfer_entry_ok a) ts \<Longrightarrow>
     \<exists>s. transfer_total ts = Some s \<and> sum_transfers a ts (Finite x) = Inr (Finite (x + s))"
proof (induction ts arbitrary: x)
  case Nil
  then show ?case by simp
next
  case (Cons e es)
  from Cons.prems have ok: "transfer_entry_ok a e" and oks: "list_all (transfer_entry_ok a) es"
    by simp_all
  from ok obtain t amt addr where e: "e = Some t" and am: "tr_amount t = Some amt"
    and ad: "tr_address t = Some addr" and ne: "a \<noteq> Some addr"
    and v: "\<not> invalid_amount amt"
    by (auto simp: transfer_entry_ok_def invalid_amount_def split: option.splits)
  from v obtain q where q: "amt = Finite q" using valid_amount_Finite by blast
  from Cons.IH [OF oks, of "x + q"] obtain s where s: "transfer_total es = Some s"
    and r: "sum_transfers a es (Finite (x + q)) = Inr (Finite (x + q + s))"
    by blast
  from e am ad ne v q s r show ?case by (simp add: add.assoc)
qed

lemma build_Inr_conserved:
  assumes "build E hb = Inr tx" and "has_transfers hb"
  shows "conserved hb"
proof -
  let ?inp = "input_objs (fst hb) (b_input (snd hb))"
  from assms(2) obtain ts where ts: "b_transfers (snd hb) = Some ts"
    and ne: "transfer_arrays (fst hb) ts \<noteq> []"
    by (auto simp: has_transfers_def split: option.splits)
  from assms(1) ts ne obtain amt acc where amt: "in_amount ?inp = Some amt"
    and v: "\<not> invalid_amount amt"
    and sm: "sum_transfers (in_address ?inp) (transfer_arrays (fst hb) ts) (Finite 0) = Inr acc"
    and eq: "isEqualTo amt acc"
    by (auto simp: build_def Let_def split: option.splits if_splits sum.splits)
  from v obtain q where q: "amt = Finite q" using valid_amount_Finite by blast
  from sum_transfers_Inr [OF sm] obtain s
    where s: "transfer_total (transfer_arrays (fst hb) ts) = Some s"
    and acc: "acc = Finite (0 + s)" by blast
  from eq q acc have "q = s" by simp
  with ts amt q s show ?thesis by (simp add: conserved_def)
qed

lemma build_mismatch:
  assumes c: "checks_before_sum hb" and t: "has_transfers hb" and n: "\<not> conserved hb"
  shows "build E hb = Inl TransferSumMismatch"
proof -
  let ?inp = "input_objs (fst hb) (b_input (snd hb))"
  from t obtain ts where ts: "b_transfers (snd hb) = Some ts"
    and ne: "transfer_arrays (fst hb) ts \<noteq> []"
    by (auto simp: has_transfers_def split: option.splits)
  from c ts obtain amt where a: "in_address ?inp \<noteq> None" and ty: "in_type ?inp \<noteq> None"
    and amt: "in_amount ?inp = Some amt" and v: "\<not> invalid_amount amt"
    and cv: "b_conversion (snd hb) = None \<or> b_conversion (snd hb) \<noteq> in_type ?inp"
    and ok: "list_all (transfer_entry_ok (in_address ?inp)) (transfer_arrays (fst hb) ts)"
    by (auto simp: checks_before_sum_def Let_def invalid_amount_def split: option.splits)
  from v obtain q where q: "amt = Finite q" using valid_amount_Finite by blast
  from sum_transfers_ok [OF ok, of 0] obtain s
    where s: "transfer_total (transfer_arrays (fst hb) ts) = Some s"
    and r: "sum_transfers (in_address ?inp) (transfer_arrays (fst hb) ts) (Finite 0)
              = Inr (Finite (0 + s))"
    by blast
  from n ts amt q s have "q \<noteq> s" by (simp add: conserved_def)
  with a ty amt v cv ts ne q r show ?thesis
    by (auto simp: build_def Let_def)
qed

lemma sum_transfers_entries:
  "sum_transfers a ts acc = Inr r \<Longrightarrow> list_all (transfer_entry_ok a) ts"
proof (induction ts arbitrary: acc)
  case Nil
  then show ?case by simp
next
  case (Cons e es)
  from Cons.prems obtain t addr amt where e: "e = Some t" and ad: "tr_address t = Some addr"
    and am: "tr_amount t = Some amt" and v: "\<not> invalid_amount amt" and ne: "a \<noteq> Some addr"
    and rest: "sum_transfers a es (plusBN acc amt) = Inr r"
    by (auto split: option.splits if_splits)
  from e ad am v ne have "transfer_entry_ok a e"
    by (auto simp: transfer_entry_ok_def invalid_amount_def)
  with Cons.IH [OF rest] show ?case by simp
qed

lemma sum_transfers_other_error:
  "sum_transfers a ts acc = Inl e \<Longrightarrow> e \<noteq> TransferSumMismatch"
  by (induction ts arbitrary: acc) (auto split: option.splits if_splits)

lemma Transaction_constructor_other_error:
  "Transaction_constructor E h (TxFromBuilder b) = Inl e \<Longrightarrow> e \<noteq> TransferSumMismatch"
  by (auto simp: Transaction_constructor_def split: option.splits)

lemma build_mismatch_checks:
  assumes b: "build E hb = Inl TransferSumMismatch"
  shows "checks_before_sum hb"
proof -
  let ?inp = "input_objs (fst hb) (b_input (snd hb))"
  from b obtain amt where amt: "in_amount ?inp = Some amt"
    by (auto simp: build_def Let_def split: option.splits)
  from b amt have a: "in_address ?inp \<noteq> None" and ty: "in_type ?inp \<noteq> None"
    by (auto simp: build_def Let_def split: if_splits)
  from b amt a ty have v: "\<not> invalid_amount amt"
    by (auto simp: build_def Let_def split: if_splits)
  from b amt a ty v
  have cv: "b_conversion (snd hb) = None \<or> b_conversion (snd hb) \<noteq> in_type ?inp"
    by (auto simp: build_def Let_def split: if_splits)
  from b amt a ty v obtain ts where ts: "b_transfers (snd hb) = Some ts"
    by (auto simp: build_def Let_def split: if_splits option.splits)
  have ok: "list_all (transfer_entry_ok (in_address ?inp)) (transfer_arrays (fst hb) ts)"
  proof (cases "transfer_arrays (fst hb) ts = []")
    case True
    then show ?thesis by simp
  next
    case False
    with b amt a ty v cv ts obtain acc
      where "sum_transfers (in_address ?inp) (transfer_arrays (fst hb) ts) (Finite 0) = Inr acc"
      by (auto simp: build_def Let_def split: if_splits sum.splits
          dest: sum_transfers_other_error)
    then show ?thesis by (rule sum_transfers_entries)
  qed
  from amt a ty v cv ts ok show ?thesis
    by (auto simp: checks_before_sum_def Let_def invalid_amount_def)
qed

lemmas example_builder_defs =
  example_transfer_def chain_def TransactionBuilder_constructor_def input_def transfer_def
  example_env_def empty_store_def default_amount_def invalid_amount_def Let_def

text \<open>
  C1, as the code has it. On a builder with at least one transfer, \<open>build()\<close> returns a
  Transaction only if the transfer amounts sum to the input amount. When they do not,
  \<open>build()\<close> fails, and the error is "transfer amount must equal input amount" exactly when
  the checks that \<open>build()\<close> makes before the comparison pass: the input is complete with a
  non-negative integer amount, the conversion is unset or differs from the type of the input,
  and every transfer has an address other than the input address and a non-negative integer
  amount. Otherwise \<open>build()\<close> fails with another error.
\<close>

theorem build_conservation:
  "(build E hb = Inr tx \<and> has_transfers hb \<longrightarrow> conserved hb)
   \<and> (has_transfers hb \<and> \<not> conserved hb
        \<longrightarrow> (\<exists>e. build E hb = Inl e \<and> (e = TransferSumMismatch \<longleftrightarrow> checks_before_sum hb)))"
proof -
  have 1: "build E hb = Inr tx \<and> has_transfers hb \<longrightarrow> conserved hb"
    using build_Inr_conserved by blast
  have 2: "\<exists>e. build E hb = Inl e \<and> (e = TransferSumMismatch \<longleftrightarrow> checks_before_sum hb)"
    if t: "has_transfers hb" and n: "\<not> conserved hb"
  proof (cases "build E hb")
    case (Inl e)
    show ?thesis
    proof (cases "checks_before_sum hb")
      case True
      from build_mismatch [OF True t n, of E] Inl True show ?thesis by simp
    next
      case False
      with build_mismatch_checks [of E hb] Inl show ?thesis by auto
    qed
  next
    case (Inr t')
    with build_Inr_conserved [OF Inr t] n show ?thesis by simp
  qed
  from 1 2 show ?thesis by blast
qed

lemma example_both_state:
  "has_transfers example_both"
  "\<not> conserved example_both"
  "checks_before_sum example_both"
  "b_conversion (snd example_both) = Some ''PEG''"
  by (simp_all add: example_both_def example_response_tx_def example_response_store_def
      Transaction_constructor_def TransactionBuilder_constructor_def empty_store_def
      has_transfers_def conserved_def checks_before_sum_def transfer_entry_ok_def)

theorem build_conservation_witness:
  "\<not> isl (build example_env (projr (example_transfer ''Fsabc'' 150 ''FAxyz'' 150)))
   \<and> has_transfers (projr (example_transfer ''Fsabc'' 150 ''FAxyz'' 150))
   \<and> conserved (projr (example_transfer ''Fsabc'' 150 ''FAxyz'' 150))
   \<and> has_transfers (projr (example_transfer ''Fsabc'' 150 ''FAxyz'' 151))
   \<and> \<not> conserved (projr (example_transfer ''Fsabc'' 150 ''FAxyz'' 151))
   \<and> checks_before_sum (projr (example_transfer ''Fsabc'' 150 ''FAxyz'' 151))
   \<and> build example_env (projr (example_transfer ''Fsabc'' 150 ''FAxyz'' 151))
       = Inl TransferSumMismatch
   \<and> has_transfers (projr (example_transfer ''Fsabc'' 150 ''FAabc'' 151))
   \<and> \<not> conserved (projr (example_transfer ''Fsabc'' 150 ''FAabc'' 151))
   \<and> \<not> checks_before_sum (projr (example_transfer ''Fsabc'' 150 ''FAabc'' 151))
   \<and> isl (build example_env (projr (example_transfer ''Fsabc'' 150 ''FAabc'' 151)))
   \<and> build example_env (projr (example_transfer ''Fsabc'' 150 ''FAabc'' 151))
       \<noteq> Inl TransferSumMismatch
   \<and> b_conversion (snd example_both) = Some ''PEG''
   \<and> has_transfers example_both \<and> \<not> conserved example_both \<and> checks_before_sum example_both
   \<and> build example_env example_both = Inl TransferSumMismatch"
proof -
  let ?ok = "projr (example_transfer ''Fsabc'' 150 ''FAxyz'' 150)"
  let ?bad = "projr (example_transfer ''Fsabc'' 150 ''FAxyz'' 151)"
  let ?self = "projr (example_transfer ''Fsabc'' 150 ''FAabc'' 151)"
  have r: "\<not> isl (build example_env ?ok)"
    by (simp add: example_builder_defs build_def Transaction_constructor_def)
  then have b: "build example_env ?ok = Inr (projr (build example_env ?ok))"
    by simp
  have t: "has_transfers ?ok" and t': "has_transfers ?bad" and t'': "has_transfers ?self"
    by (simp_all add: example_builder_defs has_transfers_def)
  have n: "\<not> conserved ?bad" and n': "\<not> conserved ?self"
    by (simp_all add: example_builder_defs conserved_def)
  have c: "checks_before_sum ?bad"
    by (simp add: example_builder_defs checks_before_sum_def transfer_entry_ok_def)
  have c': "\<not> checks_before_sum ?self"
    by (simp add: example_builder_defs checks_before_sum_def transfer_entry_ok_def)
  from build_conservation [of example_env ?ok "projr (build example_env ?ok)"] b t
  have 1: "conserved ?ok" by blast
  from build_conservation [of example_env ?bad] t' n c
  have 2: "build example_env ?bad = Inl TransferSumMismatch" by blast
  from build_conservation [of example_env ?self] t'' n' c'
  obtain e where e: "build example_env ?self = Inl e" and ne: "e \<noteq> TransferSumMismatch"
    by blast
  then have 3: "isl (build example_env ?self)"
    and 4: "build example_env ?self \<noteq> Inl TransferSumMismatch"
    by simp_all
  note s = example_both_state
  from build_conservation [of example_env example_both] s(1,2,3)
  have 5: "build example_env example_both = Inl TransferSumMismatch" by blast
  from r t 1 t' n c 2 t'' n' c' 3 4 s(4,1,2,3) 5 show ?thesis by blast
qed

text \<open>
  C1, as stated, fails: a builder whose transfers do not sum to the input amount can fail
  with another error. After \<open>input("pFCT", "Fsabc", 150)\<close> and \<open>transfer("FAabc", 151)\<close>,
  where \<open>FAabc\<close> is the public address of \<open>Fsabc\<close>, \<open>build()\<close> raises "input cannot be the
  same as the transfer address".
\<close>

theorem build_mismatch_other_error:
  "has_transfers (projr (example_transfer ''Fsabc'' 150 ''FAabc'' 151))
   \<and> \<not> conserved (projr (example_transfer ''Fsabc'' 150 ''FAabc'' 151))
   \<and> build example_env (projr (example_transfer ''Fsabc'' 150 ''FAabc'' 151)) = Inl SelfTransfer
   \<and> build example_env (projr (example_transfer ''Fsabc'' 150 ''FAabc'' 151))
       \<noteq> Inl TransferSumMismatch"
  by (simp add: example_builder_defs has_transfers_def conserved_def build_def)

section \<open>Conversion or transfers\<close>

lemma build_neither:
  "b_conversion (snd hb) = None \<Longrightarrow> \<not> has_transfers hb \<Longrightarrow> \<exists>e. build E hb = Inl e"
  by (auto simp: build_def has_transfers_def Let_def split: option.splits)

text \<open>
  C6. Conversion and transfers exclude each other: \<open>transfer()\<close> on a builder whose conversion
  is set raises "Conversion already specified", \<open>conversion()\<close> on a builder with at least one
  transfer raises "One or more transfer(s) already specified for this transaction", and
  \<open>build()\<close> fails on a builder that has neither.
\<close>

theorem conversion_transfer_exclusive:
  "(b_conversion (snd hb) \<noteq> None \<longrightarrow> transfer E fa amount hb = Inl ConversionAlreadySpecified)
   \<and> (has_transfers hb \<longrightarrow> conversion c hb = Inl TransfersAlreadySpecified)
   \<and> (b_conversion (snd hb) = None \<and> \<not> has_transfers hb \<longrightarrow> (\<exists>e. build E hb = Inl e))"
proof -
  have 1: "b_conversion (snd hb) \<noteq> None \<longrightarrow> transfer E fa amount hb = Inl ConversionAlreadySpecified"
    by (simp add: transfer_def Let_def)
  have 2: "has_transfers hb \<longrightarrow> conversion c hb = Inl TransfersAlreadySpecified"
    by (auto simp: has_transfers_def conversion_def Let_def split: option.splits)
  have 3: "b_conversion (snd hb) = None \<and> \<not> has_transfers hb \<longrightarrow> (\<exists>e. build E hb = Inl e)"
    using build_neither by blast
  from 1 2 3 show ?thesis by blast
qed

theorem conversion_transfer_exclusive_witness:
  "b_conversion (snd (projr (example_conversion ''Fsabc'' 150 ''PEG''))) \<noteq> None
   \<and> transfer example_env ''FAxyz'' (Some (Finite 150)) (projr (example_conversion ''Fsabc'' 150 ''PEG''))
       = Inl ConversionAlreadySpecified
   \<and> has_transfers (projr (example_transfer ''Fsabc'' 150 ''FAxyz'' 150))
   \<and> conversion (Some ''PEG'') (projr (example_transfer ''Fsabc'' 150 ''FAxyz'' 150))
       = Inl TransfersAlreadySpecified
   \<and> b_conversion (snd (projr (example_input ''Fsabc'' 150))) = None
   \<and> \<not> has_transfers (projr (example_input ''Fsabc'' 150))
   \<and> isl (build example_env (projr (example_input ''Fsabc'' 150)))"
proof -
  let ?c = "projr (example_conversion ''Fsabc'' 150 ''PEG'')"
  let ?t = "projr (example_transfer ''Fsabc'' 150 ''FAxyz'' 150)"
  let ?i = "projr (example_input ''Fsabc'' 150)"
  have c: "b_conversion (snd ?c) \<noteq> None"
    by (simp add: example_conversion_def example_input_def example_builder_defs conversion_def)
  have t: "has_transfers ?t"
    by (simp add: example_builder_defs has_transfers_def)
  have i: "b_conversion (snd ?i) = None" and i': "\<not> has_transfers ?i"
    by (simp_all add: example_input_def example_builder_defs has_transfers_def)
  from conversion_transfer_exclusive [of ?c example_env "''FAxyz''" "Some (Finite 150)"] c
  have 1: "transfer example_env ''FAxyz'' (Some (Finite 150)) ?c = Inl ConversionAlreadySpecified"
    by blast
  from conversion_transfer_exclusive [of ?t _ _ _ "Some ''PEG''"] t
  have 2: "conversion (Some ''PEG'') ?t = Inl TransfersAlreadySpecified"
    by blast
  from conversion_transfer_exclusive [of ?i example_env] i i'
  have 3: "isl (build example_env ?i)"
    by auto
  from c 1 t 2 i i' 3 show ?thesis by blast
qed

section \<open>External signature on a transaction builder\<close>

text \<open>
  C7, as the code has it. \<open>pkSignature(publicKey, signature)\<close> of a transaction builder first
  derives the address of the key, and fails with "Key ... is not 32 bytes long." for a key of
  another length, whatever the signature is. For a key of 32 bytes it fails with "Invalid
  Signature Length." when the signature is not 64 bytes long; for a signature of 64 bytes it
  fails with "Public Key (...) for provided signature does not match input adderess." when
  the address derived from the public key is not the input address. A call that is accepted
  has a key of 32 bytes, a signature of 64 bytes and a key whose address is the input
  address, and such a call is accepted and records the signature.
\<close>

theorem pkSignature_checks:
  "(length (Buffer_from_hex pk) \<noteq> 32 \<longrightarrow> pkSignature E pk signature hb = Inl KeyNot32Bytes)
   \<and> (length (Buffer_from_hex pk) = 32 \<and> length signature \<noteq> 64
        \<longrightarrow> pkSignature E pk signature hb = Inl InvalidSignatureLength)
   \<and> (length (Buffer_from_hex pk) = 32 \<and> length signature = 64
        \<and> in_address (input_objs (fst hb) (b_input (snd hb))) \<noteq> Some (derived_address E pk)
        \<longrightarrow> pkSignature E pk signature hb = Inl PublicKeyMismatch)
   \<and> (pkSignature E pk signature hb = Inr r
        \<longrightarrow> length (Buffer_from_hex pk) = 32 \<and> length signature = 64
            \<and> in_address (input_objs (fst hb) (b_input (snd hb))) = Some (derived_address E pk)
            \<and> b_signature (snd r) = Some [signature])
   \<and> (length (Buffer_from_hex pk) = 32 \<and> length signature = 64
        \<and> in_address (input_objs (fst hb) (b_input (snd hb))) = Some (derived_address E pk)
        \<and> b_key (snd hb) \<noteq> None
        \<longrightarrow> \<not> isl (pkSignature E pk signature hb))"
  by (auto simp: pkSignature_def derived_address_def Let_def split: option.splits if_splits)

lemma example_public_input:
  "in_address (input_objs (fst (projr (example_transfer example_fa 150 ''FAxyz'' 150)))
      (b_input (snd (projr (example_transfer example_fa 150 ''FAxyz'' 150)))))
     = Some example_fa"
  "b_key (snd (projr (example_transfer example_fa 150 ''FAxyz'' 150))) \<noteq> None"
  by (simp_all add: example_builder_defs example_fa_def)

lemma example_derived:
  "derived_address example_env (ByteKey example_key) = example_fa"
  "derived_address example_env (ByteKey example_other_key) = example_other_fa"
  "length (Buffer_from_hex (ByteKey example_key)) = 32"
  "length (Buffer_from_hex (ByteKey example_other_key)) = 32"
  "length (Buffer_from_hex (ByteKey ''abc'')) \<noteq> 32"
  "example_fa \<noteq> example_other_fa"
  by (simp_all add: derived_address_def Buffer_from_hex_def example_env_def example_key_def
      example_other_key_def example_fa_def example_other_fa_def)

theorem pkSignature_checks_witness:
  "length (Buffer_from_hex (ByteKey ''abc'')) \<noteq> 32
   \<and> pkSignature example_env (ByteKey ''abc'') example_pad
        (projr (example_transfer example_fa 150 ''FAxyz'' 150)) = Inl KeyNot32Bytes
   \<and> length (Buffer_from_hex (ByteKey example_key)) = 32
   \<and> length ''abcdef1234567890'' \<noteq> 64
   \<and> pkSignature example_env (ByteKey example_key) ''abcdef1234567890''
        (projr (example_transfer example_fa 150 ''FAxyz'' 150))
       = Inl InvalidSignatureLength
   \<and> length (Buffer_from_hex (ByteKey example_other_key)) = 32
   \<and> length example_pad = 64
   \<and> pkSignature example_env (ByteKey example_other_key) example_pad
        (projr (example_transfer example_fa 150 ''FAxyz'' 150)) = Inl PublicKeyMismatch
   \<and> \<not> isl (pkSignature example_env (ByteKey example_key) example_pad
        (projr (example_transfer example_fa 150 ''FAxyz'' 150)))
   \<and> b_signature (snd (projr (pkSignature example_env (ByteKey example_key) example_pad
        (projr (example_transfer example_fa 150 ''FAxyz'' 150))))) = Some [example_pad]"
proof -
  let ?hb = "projr (example_transfer example_fa 150 ''FAxyz'' 150)"
  let ?addr = "in_address (input_objs (fst ?hb) (b_input (snd ?hb)))"
  note d = example_derived
  have l: "length ''abcdef1234567890'' \<noteq> 64" and l': "length example_pad = 64"
    by (simp_all add: example_pad_def)
  have a: "?addr = Some (derived_address example_env (ByteKey example_key))"
    and a': "?addr \<noteq> Some (derived_address example_env (ByteKey example_other_key))"
    by (simp_all add: example_public_input d)
  have k: "b_key (snd ?hb) \<noteq> None" by (rule example_public_input)
  from pkSignature_checks [where pk = "ByteKey ''abc''" and E = example_env
      and signature = example_pad and hb = ?hb] d(5)
  have 0: "pkSignature example_env (ByteKey ''abc'') example_pad ?hb = Inl KeyNot32Bytes"
    by blast
  from pkSignature_checks [where pk = "ByteKey example_key" and E = example_env
      and signature = "''abcdef1234567890''" and hb = ?hb] d(3) l
  have 1: "pkSignature example_env (ByteKey example_key) ''abcdef1234567890'' ?hb
             = Inl InvalidSignatureLength"
    by blast
  from pkSignature_checks [where pk = "ByteKey example_other_key" and E = example_env
      and signature = example_pad and hb = ?hb] d(4) l' a'
  have 2: "pkSignature example_env (ByteKey example_other_key) example_pad ?hb
             = Inl PublicKeyMismatch"
    by blast
  from pkSignature_checks [where pk = "ByteKey example_key" and E = example_env
      and signature = example_pad and hb = ?hb] d(3) l' a k
  have 3: "\<not> isl (pkSignature example_env (ByteKey example_key) example_pad ?hb)"
    by blast
  then have "pkSignature example_env (ByteKey example_key) example_pad ?hb
      = Inr (projr (pkSignature example_env (ByteKey example_key) example_pad ?hb))"
    by simp
  with pkSignature_checks [where pk = "ByteKey example_key" and E = example_env
      and signature = example_pad and hb = ?hb
      and r = "projr (pkSignature example_env (ByteKey example_key) example_pad ?hb)"]
  have 4: "b_signature (snd (projr (pkSignature example_env (ByteKey example_key) example_pad ?hb)))
             = Some [example_pad]"
    by blast
  from d(5) 0 d(3) l 1 d(4) l' 2 3 4 show ?thesis by blast
qed

text \<open>
  C7, as stated, fails in two ways. The length of the signature is tested before the
  address: a key of 32 bytes for another address together with a signature of 16 bytes gives
  the length error, not the address error. And the address of the key is derived before
  both tests: a key of 3 bytes together with a signature of 16 bytes gives the error of the
  address library, not the length error.
\<close>

theorem pkSignature_other_errors:
  "length (Buffer_from_hex (ByteKey example_other_key)) = 32
   \<and> in_address (input_objs (fst (projr (example_transfer example_fa 150 ''FAxyz'' 150)))
      (b_input (snd (projr (example_transfer example_fa 150 ''FAxyz'' 150)))))
     \<noteq> Some (derived_address example_env (ByteKey example_other_key))
   \<and> pkSignature example_env (ByteKey example_other_key) ''abcdef1234567890''
        (projr (example_transfer example_fa 150 ''FAxyz'' 150))
       = Inl InvalidSignatureLength
   \<and> pkSignature example_env (ByteKey example_other_key) ''abcdef1234567890''
        (projr (example_transfer example_fa 150 ''FAxyz'' 150))
       \<noteq> Inl PublicKeyMismatch
   \<and> length ''abcdef1234567890'' \<noteq> 64
   \<and> pkSignature example_env (ByteKey ''abc'') ''abcdef1234567890''
        (projr (example_transfer example_fa 150 ''FAxyz'' 150)) = Inl KeyNot32Bytes
   \<and> pkSignature example_env (ByteKey ''abc'') ''abcdef1234567890''
        (projr (example_transfer example_fa 150 ''FAxyz'' 150))
       \<noteq> Inl InvalidSignatureLength"
  by (simp add: example_public_input example_derived pkSignature_def)

section \<open>Amounts\<close>

lemma invalid_amount_Finite: "invalid_amount (Finite q) \<longleftrightarrow> q \<notin> \<int> \<or> q < 0"
proof -
  have "rat_of_int \<lfloor>q\<rfloor> = q \<longleftrightarrow> q \<in> \<int>"
    by (metis Ints_of_int floor_of_int Ints_cases)
  then show ?thesis by (simp add: invalid_amount_def)
qed

lemma input_result:
  assumes "b_signature (snd hb) = None"
    and "isValidPrivateAddress E fs \<or> isValidPublicFctAddress E fs"
  shows "invalid_amount (default_amount a) \<Longrightarrow> input E ty fs a hb = Inl InputAmountNotPositiveInteger"
    and "\<not> invalid_amount (default_amount a) \<Longrightarrow>
           \<exists>r. input E ty fs a hb = Inr r
             \<and> in_amount (input_objs (fst r) (b_input (snd r))) = Some (default_amount a)"
  using assms by (auto simp: input_def Let_def)

lemma transfer_result:
  assumes "b_signature (snd hb) = None" and "b_conversion (snd hb) = None"
    and "isValidPublicFctAddress E fa" and "b_transfers (snd hb) = Some ts"
  shows "invalid_amount (default_amount a) \<Longrightarrow> transfer E fa a hb = Inl InputAmountNotPositiveInteger"
    and "\<not> invalid_amount (default_amount a) \<Longrightarrow>
           \<exists>r. transfer E fa a hb = Inr r
             \<and> transfer_arrays (fst r) ts
                 = transfer_arrays (fst hb) ts @ [Some \<lparr>tr_address = Some fa, tr_amount = Some (default_amount a)\<rparr>]"
  using assms by (auto simp: transfer_def Let_def)

lemma sum_transfers_error:
  "sum_transfers a ts acc = Inl e \<Longrightarrow>
     e \<in> {MalformedTransferEntry, TransferAddressMissing, TransferAmountMissing,
          TransferAmountNotPositiveInteger, SelfTransfer}"
  by (induction ts arbitrary: acc) (auto split: option.splits if_splits)

lemma Transaction_constructor_error:
  "Transaction_constructor E h (TxFromBuilder b) = Inl e \<Longrightarrow> e = TypeError"
  by (auto simp: Transaction_constructor_def split: option.splits)

lemma build_zero_input:
  assumes "in_amount (input_objs (fst hb) (b_input (snd hb))) = Some (Finite 0)"
  shows "build E hb \<noteq> Inl InputAmountNotPositiveInteger"
proof
  assume b: "build E hb = Inl InputAmountNotPositiveInteger"
  have v: "\<not> invalid_amount (Finite 0)" by (simp add: invalid_amount_def)
  from b assms v show False
    by (auto simp: build_def Let_def split: option.splits if_splits sum.splits
        dest: sum_transfers_error Transaction_constructor_error)
qed

lemma build_zero_conversion:
  assumes "in_amount (input_objs (fst hb) (b_input (snd hb))) = Some (Finite 0)"
    and "in_address (input_objs (fst hb) (b_input (snd hb))) \<noteq> None"
    and "in_type (input_objs (fst hb) (b_input (snd hb))) \<noteq> None"
    and "b_conversion (snd hb) \<noteq> None"
    and "b_conversion (snd hb) \<noteq> in_type (input_objs (fst hb) (b_input (snd hb)))"
    and "b_transfers (snd hb) = Some ts" and "transfer_arrays (fst hb) ts = []"
    and "b_timestamp (snd hb) = None" and "b_signature (snd hb) = None"
  shows "build E hb = Transaction_constructor E (fst hb) (TxFromBuilder (snd hb))"
  using assms by (auto simp: build_def Let_def invalid_amount_def)

text \<open>
  C9. The amount test of the builder is \<open>!amt.isInteger() || amt.isLessThan(0)\<close>: it rejects
  exactly the amounts that are not integers or are negative. An amount of 0, and an omitted
  amount, which defaults to 0, is accepted by \<open>input()\<close> and by \<open>transfer()\<close> and stored;
  \<open>build()\<close> never raises "Input amount must be a positive nonzero integer" for an input
  amount of 0, and a conversion of 0 units passes every check of \<open>build()\<close> and reaches the
  constructor.
\<close>

theorem zero_amount_accepted:
  "(invalid_amount (Finite q) \<longleftrightarrow> q \<notin> \<int> \<or> q < 0)
   \<and> default_amount None = Finite 0
   \<and> (b_signature (snd hb) = None
        \<and> (isValidPrivateAddress E fs \<or> isValidPublicFctAddress E fs)
        \<longrightarrow> (if invalid_amount (default_amount a)
             then input E ty fs a hb = Inl InputAmountNotPositiveInteger
             else \<exists>r. input E ty fs a hb = Inr r
                    \<and> in_amount (input_objs (fst r) (b_input (snd r))) = Some (default_amount a)))
   \<and> (b_signature (snd hb) = None \<and> b_conversion (snd hb) = None
        \<and> isValidPublicFctAddress E fa \<and> b_transfers (snd hb) = Some ts
        \<longrightarrow> (if invalid_amount (default_amount a)
             then transfer E fa a hb = Inl InputAmountNotPositiveInteger
             else \<exists>r. transfer E fa a hb = Inr r
                    \<and> transfer_arrays (fst r) ts
                        = transfer_arrays (fst hb) ts
                          @ [Some \<lparr>tr_address = Some fa, tr_amount = Some (default_amount a)\<rparr>]))
   \<and> (in_amount (input_objs (fst hb) (b_input (snd hb))) = Some (Finite 0)
        \<longrightarrow> build E hb \<noteq> Inl InputAmountNotPositiveInteger)
   \<and> (in_amount (input_objs (fst hb) (b_input (snd hb))) = Some (Finite 0)
        \<and> in_address (input_objs (fst hb) (b_input (snd hb))) \<noteq> None
        \<and> in_type (input_objs (fst hb) (b_input (snd hb))) \<noteq> None
        \<and> b_conversion (snd hb) \<noteq> None
        \<and> b_conversion (snd hb) \<noteq> in_type (input_objs (fst hb) (b_input (snd hb)))
        \<and> b_transfers (snd hb) = Some ts \<and> transfer_arrays (fst hb) ts = []
        \<and> b_timestamp (snd hb) = None \<and> b_signature (snd hb) = None
        \<longrightarrow> build E hb = Transaction_constructor E (fst hb) (TxFromBuilder (snd hb)))"
proof -
  have 1: "invalid_amount (Finite q) \<longleftrightarrow> q \<notin> \<int> \<or> q < 0"
    by (rule invalid_amount_Finite)
  have 2: "default_amount None = Finite 0"
    by (simp add: default_amount_def)
  have 3: "b_signature (snd hb) = None
        \<and> (isValidPrivateAddress E fs \<or> isValidPublicFctAddress E fs)
        \<longrightarrow> (if invalid_amount (default_amount a)
             then input E ty fs a hb = Inl InputAmountNotPositiveInteger
             else \<exists>r. input E ty fs a hb = Inr r
                    \<and> in_amount (input_objs (fst r) (b_input (snd r))) = Some (default_amount a))"
    using input_result [of hb E fs a ty] by (cases "invalid_amount (default_amount a)") simp_all
  have 4: "b_signature (snd hb) = None \<and> b_conversion (snd hb) = None
        \<and> isValidPublicFctAddress E fa \<and> b_transfers (snd hb) = Some ts
        \<longrightarrow> (if invalid_amount (default_amount a)
             then transfer E fa a hb = Inl InputAmountNotPositiveInteger
             else \<exists>r. transfer E fa a hb = Inr r
                    \<and> transfer_arrays (fst r) ts
                        = transfer_arrays (fst hb) ts
                          @ [Some \<lparr>tr_address = Some fa, tr_amount = Some (default_amount a)\<rparr>])"
    using transfer_result [of hb E fa ts a] by (cases "invalid_amount (default_amount a)") simp_all
  have 5: "in_amount (input_objs (fst hb) (b_input (snd hb))) = Some (Finite 0)
        \<longrightarrow> build E hb \<noteq> Inl InputAmountNotPositiveInteger"
    using build_zero_input by blast
  have 6: "in_amount (input_objs (fst hb) (b_input (snd hb))) = Some (Finite 0)
        \<and> in_address (input_objs (fst hb) (b_input (snd hb))) \<noteq> None
        \<and> in_type (input_objs (fst hb) (b_input (snd hb))) \<noteq> None
        \<and> b_conversion (snd hb) \<noteq> None
        \<and> b_conversion (snd hb) \<noteq> in_type (input_objs (fst hb) (b_input (snd hb)))
        \<and> b_transfers (snd hb) = Some ts \<and> transfer_arrays (fst hb) ts = []
        \<and> b_timestamp (snd hb) = None \<and> b_signature (snd hb) = None
        \<longrightarrow> build E hb = Transaction_constructor E (fst hb) (TxFromBuilder (snd hb))"
    using build_zero_conversion by blast
  from 1 2 3 4 5 6 show ?thesis by blast
qed


theorem zero_amount_accepted_witness:
  "\<not> invalid_amount (Finite 0) \<and> invalid_amount (Finite (- 1)) \<and> invalid_amount (Finite (11 / 10))
   \<and> in_amount (getInput (fst (projr (example_input ''Fsabc'' 0)))
         (projr (build example_env (projr (example_conversion ''Fsabc'' 0 ''PEG''))))) = Some (Finite 0)
   \<and> \<not> isl (input example_env (Some ''pFCT'') ''Fsabc'' None
              (projr (TransactionBuilder_constructor empty_store NoArgument)))
   \<and> input example_env (Some ''pFCT'') ''Fsabc'' (Some (Finite (- 1)))
          (projr (TransactionBuilder_constructor empty_store NoArgument))
        = Inl InputAmountNotPositiveInteger
   \<and> \<not> isl (transfer example_env ''FAxyz'' (Some (Finite 0)) (projr (example_input ''Fsabc'' 0)))
   \<and> build example_env (projr (example_conversion ''Fsabc'' 0 ''PEG''))
        \<noteq> Inl InputAmountNotPositiveInteger
   \<and> \<not> isl (build example_env (projr (example_conversion ''Fsabc'' 0 ''PEG'')))"
proof -
  let ?new = "projr (TransactionBuilder_constructor empty_store NoArgument)"
  let ?in = "projr (example_input ''Fsabc'' 0)"
  let ?cv = "projr (example_conversion ''Fsabc'' 0 ''PEG'')"
  have a: "\<not> invalid_amount (Finite 0)"
    using zero_amount_accepted [of 0] by simp
  have b: "invalid_amount (Finite (- 1))"
    using zero_amount_accepted [of "- 1"] by simp
  have c: "invalid_amount (Finite (11 / 10))"
    using zero_amount_accepted [of "11 / 10"] by simp
  have new: "b_signature (snd ?new) = None"
    and fs: "isValidPrivateAddress example_env ''Fsabc''"
    and fa: "isValidPublicFctAddress example_env ''FAxyz''"
    by (simp_all add: TransactionBuilder_constructor_def example_env_def Let_def)
  have d0: "default_amount None = Finite 0" and d1: "default_amount (Some (Finite (- 1))) = Finite (- 1)"
    and d2: "default_amount (Some (Finite 0)) = Finite 0"
    by (simp_all add: default_amount_def)
  from zero_amount_accepted [where q = 0 and hb = ?new and E = example_env and fs = "''Fsabc''"
      and a = None and ty = "Some ''pFCT''" and fa = "''FAxyz''" and ts = 2] new fs a d0
  have e: "\<not> isl (input example_env (Some ''pFCT'') ''Fsabc'' None ?new)"
    by auto
  from zero_amount_accepted [where q = 0 and hb = ?new and E = example_env and fs = "''Fsabc''"
      and a = "Some (Finite (- 1))" and ty = "Some ''pFCT''" and fa = "''FAxyz''" and ts = 2]
    new fs b d1
  have f: "input example_env (Some ''pFCT'') ''Fsabc'' (Some (Finite (- 1))) ?new
             = Inl InputAmountNotPositiveInteger"
    by auto
  have i: "b_signature (snd ?in) = None" "b_conversion (snd ?in) = None"
    "b_transfers (snd ?in) = Some 2"
    by (simp_all add: example_input_def example_builder_defs)
  from zero_amount_accepted [where q = 0 and hb = ?in and E = example_env and fs = "''Fsabc''"
      and a = "Some (Finite 0)" and ty = "Some ''pFCT''" and fa = "''FAxyz''" and ts = 2] i fa a d2
  have g: "\<not> isl (transfer example_env ''FAxyz'' (Some (Finite 0)) ?in)"
    by auto
  have v: "in_amount (input_objs (fst ?cv) (b_input (snd ?cv))) = Some (Finite 0)"
    "in_address (input_objs (fst ?cv) (b_input (snd ?cv))) \<noteq> None"
    "in_type (input_objs (fst ?cv) (b_input (snd ?cv))) \<noteq> None"
    "b_conversion (snd ?cv) \<noteq> None"
    "b_conversion (snd ?cv) \<noteq> in_type (input_objs (fst ?cv) (b_input (snd ?cv)))"
    "b_transfers (snd ?cv) = Some 2" "transfer_arrays (fst ?cv) 2 = []"
    "b_timestamp (snd ?cv) = None" "b_signature (snd ?cv) = None"
    by (simp_all add: example_conversion_def example_input_def example_builder_defs conversion_def)
  from zero_amount_accepted [where q = 0 and hb = ?cv and E = example_env and fs = "''Fsabc''"
      and a = "Some (Finite 0)" and ty = "Some ''pFCT''" and fa = "''FAxyz''" and ts = 2] v
  have h: "build example_env ?cv \<noteq> Inl InputAmountNotPositiveInteger"
    and k: "build example_env ?cv = Transaction_constructor example_env (fst ?cv) (TxFromBuilder (snd ?cv))"
    by blast+
  have l: "\<not> isl (build example_env ?cv)"
    and m: "in_amount (getInput (fst ?in) (projr (build example_env ?cv))) = Some (Finite 0)"
    unfolding k
    by (simp_all add: example_conversion_def example_input_def example_builder_defs conversion_def
        Transaction_constructor_def getInput_def)
  from a b c m e f g h l show ?thesis by blast
qed

section \<open>Signature verification\<close>

text \<open>
  C3, as the code has it. \<open>Transaction.validateSignature(hashed, signature)\<close> raises
  "Transaction not signed" exactly when the signature or the RCD is absent. With both present
  it hands the signature, and the RCD without its first byte as the public key, to the
  verifier of tweetnacl, which raises "bad signature size" for a signature that is not 64
  bytes long. For a signature of 64 bytes and a key of 32 bytes the method returns what the
  verifier finds, \<open>false\<close> for an invalid signature, and raises nothing.
\<close>

theorem validateSignature_result:
  "(signature = Some sg \<and> tx_rcd tx = Some rcd \<and> length sg = 64 \<and> length (drop 1 rcd) = 32
      \<longrightarrow> validateSignature E tx hashed signature = Inr (detached_verify E hashed sg (drop 1 rcd)))
   \<and> (signature = None \<or> tx_rcd tx = None
      \<longrightarrow> validateSignature E tx hashed signature = Inl TransactionNotSigned)
   \<and> (validateSignature E tx hashed signature = Inl TransactionNotSigned
      \<longrightarrow> signature = None \<or> tx_rcd tx = None)
   \<and> (signature = Some sg \<and> tx_rcd tx = Some rcd \<and> length sg \<noteq> 64
      \<longrightarrow> validateSignature E tx hashed signature = Inl BadSignatureSize)"
proof -
  have 1: "signature = Some sg \<and> tx_rcd tx = Some rcd \<and> length sg = 64 \<and> length (drop 1 rcd) = 32
      \<longrightarrow> validateSignature E tx hashed signature = Inr (detached_verify E hashed sg (drop 1 rcd))"
    by (simp add: validateSignature_def nacl_detached_verify_def)
  have 2: "signature = None \<or> tx_rcd tx = None
      \<longrightarrow> validateSignature E tx hashed signature = Inl TransactionNotSigned"
    by (auto simp: validateSignature_def split: option.splits)
  have 3: "validateSignature E tx hashed signature = Inl TransactionNotSigned
      \<longrightarrow> signature = None \<or> tx_rcd tx = None"
    by (auto simp: validateSignature_def nacl_detached_verify_def split: option.splits if_splits)
  have 4: "signature = Some sg \<and> tx_rcd tx = Some rcd \<and> length sg \<noteq> 64
      \<longrightarrow> validateSignature E tx hashed signature = Inl BadSignatureSize"
    by (simp add: validateSignature_def nacl_detached_verify_def)
  from 1 2 3 4 show ?thesis by blast
qed

lemma example_member_eq:
  "example_member = \<lparr>tx_input = 1, tx_conversion = None, tx_transfers = Some 2, tx_metadata = None,
      tx_key = Some 3, tx_rcd = Some (CHR 0x01 # example_key), tx_entryhash = None,
      tx_timestamp = None, tx_pending = None\<rparr>"
  by (simp add: example_member_def example_owner_def example_builder_defs build_def
      Transaction_constructor_def example_fs_def example_key_def)

lemma example_response_tx_eq:
  "example_response_tx = \<lparr>tx_input = 0, tx_conversion = Some ''PEG'', tx_transfers = Some 1,
      tx_metadata = None, tx_key = None, tx_rcd = None, tx_entryhash = None,
      tx_timestamp = None, tx_pending = None\<rparr>"
  by (simp add: example_response_tx_def Transaction_constructor_def)

lemma example_signatures:
  "length (detached example_env ''hash'' (example_key @ example_key)) = 64"
  "length example_pad = 64"
  "length ''abcdef1234567890'' \<noteq> 64"
  "length (drop 1 (CHR 0x01 # example_key)) = 32"
  "detached_verify example_env ''hash'' (detached example_env ''hash'' (example_key @ example_key))
     (drop 1 (CHR 0x01 # example_key))"
  "\<not> detached_verify example_env ''hash'' example_pad (drop 1 (CHR 0x01 # example_key))"
  by (simp_all add: example_env_def example_pad_def example_key_def)

theorem validateSignature_result_witness:
  "tx_rcd example_member = Some (CHR 0x01 # example_key)
   \<and> length (drop 1 (CHR 0x01 # example_key)) = 32
   \<and> length (detached example_env ''hash'' (example_key @ example_key)) = 64
   \<and> validateSignature example_env example_member ''hash''
       (Some (detached example_env ''hash'' (example_key @ example_key))) = Inr True
   \<and> length example_pad = 64
   \<and> validateSignature example_env example_member ''hash'' (Some example_pad) = Inr False
   \<and> validateSignature example_env example_member ''hash'' None = Inl TransactionNotSigned
   \<and> tx_rcd example_response_tx = None
   \<and> validateSignature example_env example_response_tx ''hash'' (Some example_pad)
       = Inl TransactionNotSigned
   \<and> length ''abcdef1234567890'' \<noteq> 64
   \<and> validateSignature example_env example_member ''hash'' (Some ''abcdef1234567890'')
       = Inl BadSignatureSize"
proof -
  let ?good = "detached example_env ''hash'' (example_key @ example_key)"
  let ?rcd = "CHR 0x01 # example_key"
  note s = example_signatures
  have r: "tx_rcd example_member = Some ?rcd"
    by (simp add: example_member_eq)
  have r': "tx_rcd example_response_tx = None"
    by (simp add: example_response_tx_eq)
  from validateSignature_result [where signature = "Some ?good" and sg = ?good
      and tx = example_member and rcd = ?rcd and E = example_env and hashed = "''hash''"]
    r s(1,4,5)
  have 1: "validateSignature example_env example_member ''hash'' (Some ?good) = Inr True"
    by simp
  from validateSignature_result [where signature = "Some example_pad" and sg = example_pad
      and tx = example_member and rcd = ?rcd and E = example_env and hashed = "''hash''"]
    r s(2,4,6)
  have 2: "validateSignature example_env example_member ''hash'' (Some example_pad) = Inr False"
    by simp
  from validateSignature_result [where signature = None and sg = example_pad
      and tx = example_member and rcd = ?rcd and E = example_env and hashed = "''hash''"]
  have 3: "validateSignature example_env example_member ''hash'' None = Inl TransactionNotSigned"
    by simp
  from validateSignature_result [where signature = "Some example_pad" and sg = example_pad
      and tx = example_response_tx and rcd = ?rcd and E = example_env and hashed = "''hash''"] r'
  have 4: "validateSignature example_env example_response_tx ''hash'' (Some example_pad)
             = Inl TransactionNotSigned"
    by simp
  from validateSignature_result [where signature = "Some ''abcdef1234567890''"
      and sg = "''abcdef1234567890''" and tx = example_member and rcd = ?rcd
      and E = example_env and hashed = "''hash''"] r s(3)
  have 5: "validateSignature example_env example_member ''hash'' (Some ''abcdef1234567890'')
             = Inl BadSignatureSize"
    by simp
  from r s(4,1) 1 s(2) 2 3 r' 4 s(3) 5 show ?thesis by blast
qed

text \<open>
  C3, as stated, fails for a signature that is present and invalid by its length. The
  transaction built from the private address of the first example key holds an RCD; with a
  signature of 16 bytes \<open>validateSignature\<close> neither returns \<open>false\<close> nor raises "Transaction
  not signed": the verifier raises "bad signature size".
\<close>

theorem validateSignature_short_signature_raises:
  "tx_rcd example_member = Some (CHR 0x01 # example_key)
   \<and> validateSignature example_env example_member ''hash'' (Some ''abcdef1234567890'')
       = Inl BadSignatureSize
   \<and> validateSignature example_env example_member ''hash'' (Some ''abcdef1234567890'')
       \<noteq> Inr False
   \<and> validateSignature example_env example_member ''hash'' (Some ''abcdef1234567890'')
       \<noteq> Inl TransactionNotSigned"
  by (simp add: example_member_eq validateSignature_def nacl_detached_verify_def)

section \<open>The first pass of a batch\<close>

lemma check_transactions_first_pass: "check_transactions (map Some txs) None i = Inr ()"
  by (induction txs arbitrary: i) simp_all

lemma contents_nonempty: "txs \<noteq> [] \<Longrightarrow> contents txs = Inl TypeError"
  by (cases txs) simp_all

lemma constructor_first_pass_raises:
  assumes "bb_signatures bb = None" and "bb_transactions bb = Some a"
    and "transaction_arrays h a \<noteq> []"
  shows "TransactionBatch_constructor E ts h (BatchFromBuilder bb) = Inl TypeError"
  using assms by (simp add: TransactionBatch_constructor_def Let_def contents_nonempty)

lemma build_first_pass:
  assumes s: "bb_signatures (snd hb) = None" and a: "bb_transactions (snd hb) = Some a"
    and t: "transaction_arrays (fst hb) a = map Some txs" and n: "txs \<noteq> []"
  shows "TransactionBatchBuilder_build E ts hb
           = TransactionBatch_constructor E ts (fst hb) (BatchFromBuilder (snd hb))"
  using assms by (simp add: TransactionBatchBuilder_build_def Let_def check_transactions_first_pass)

lemmas example_batch_defs =
  example_batch_builder_def example_tx_in_def chain_def TransactionBuilder_constructor_def
  input_def transfer_def build_def Transaction_constructor_def example_env_def empty_store_def
  default_amount_def invalid_amount_def Let_def TransactionBatchBuilder_constructor_def
  TransactionBatchBuilder_transaction_def

lemma example_owner_state:
  "snd example_owner = \<lparr>b_tokenChainId = token_chain_id, b_key = Some 3, b_signature = None,
      b_input = 1, b_transfers = Some 2, b_conversion = None, b_timestamp = None,
      b_metadata = None\<rparr>"
  "next_addr (fst example_owner) = 4"
  "input_objs (fst example_owner) 1
     = \<lparr>in_address = Some example_fa, in_amount = Some (Finite 150), in_type = Some ''pFCT''\<rparr>"
  "transfer_arrays (fst example_owner) 2
     = [Some \<lparr>tr_address = Some ''FAxyz'', tr_amount = Some (Finite 150)\<rparr>]"
  "key_objs (fst example_owner) 3
     = \<lparr>pubaddr = None, publicKey = Some example_key, secretKey = Some (example_key @ example_key)\<rparr>"
  "build example_env example_owner = Inr example_member"
  by (simp_all add: example_member_def example_owner_def example_builder_defs example_fs_def
      example_fa_def example_key_def build_def Transaction_constructor_def)

lemma example_first_pass_state:
  "bb_signatures (snd example_first_pass) = None"
  "bb_transactions (snd example_first_pass) = Some 4"
  "transaction_arrays (fst example_first_pass) 4 = map Some [example_member]"
  "key_objs (fst example_first_pass) 3 = key_objs (fst example_owner) 3"
  by (simp_all add: example_first_pass_def TransactionBatchBuilder_constructor_def
      TransactionBatchBuilder_transaction_def Let_def example_owner_state)

lemma example_member_signs:
  "sign example_env (fst example_first_pass) example_member ''hash''
     = Inr (Some (detached example_env ''hash'' (example_key @ example_key)))"
  by (simp add: sign_def example_member_eq example_first_pass_state example_owner_state
      example_key_def)

text \<open>
  C4. The first pass does not get as far as the identifiers. On a batch builder without
  signatures whose array holds at least one entry, each of them a transaction,
  \<open>TransactionBatchBuilder.build()\<close> passes its own checks and the constructor of
  TransactionBatch raises a TypeError: its first loop calls \<open>tx.getContent()\<close>, and the class
  Transaction has no such method. So \<open>build()\<close> returns no batch, also when every
  transaction holds a secret key, and the identifiers
  \<open>[timestamp, RCD_0, sig_0, RCD_1, sig_1, ...]\<close> that the rest of the constructor would
  assemble are never produced.
\<close>

theorem first_pass_raises:
  "bb_signatures (snd hb) = None \<and> bb_transactions (snd hb) = Some a
     \<and> transaction_arrays (fst hb) a = map Some txs \<and> txs \<noteq> []
   \<longrightarrow> TransactionBatch_constructor E ts (fst hb) (BatchFromBuilder (snd hb)) = Inl TypeError
       \<and> TransactionBatchBuilder_build E ts hb = Inl TypeError"
proof
  assume h: "bb_signatures (snd hb) = None \<and> bb_transactions (snd hb) = Some a
     \<and> transaction_arrays (fst hb) a = map Some txs \<and> txs \<noteq> []"
  then have s: "bb_signatures (snd hb) = None" and a: "bb_transactions (snd hb) = Some a"
    and t: "transaction_arrays (fst hb) a = map Some txs" and n: "txs \<noteq> []"
    by simp_all
  from t n have ne: "transaction_arrays (fst hb) a \<noteq> []" by simp
  have c: "TransactionBatch_constructor E ts (fst hb) (BatchFromBuilder (snd hb)) = Inl TypeError"
    using s a ne by (rule constructor_first_pass_raises)
  with build_first_pass [OF s a t n, of E ts]
  show "TransactionBatch_constructor E ts (fst hb) (BatchFromBuilder (snd hb)) = Inl TypeError
       \<and> TransactionBatchBuilder_build E ts hb = Inl TypeError"
    by simp
qed

theorem first_pass_raises_witness:
  "bb_signatures (snd example_first_pass) = None
   \<and> bb_transactions (snd example_first_pass) = Some 4
   \<and> transaction_arrays (fst example_first_pass) 4 = map Some [example_member]
   \<and> sign example_env (fst example_first_pass) example_member ''hash''
       = Inr (Some (detached example_env ''hash'' (example_key @ example_key)))
   \<and> getRCD example_member = Some (CHR 0x01 # example_key)
   \<and> TransactionBatch_constructor example_env 1550696040 (fst example_first_pass)
         (BatchFromBuilder (snd example_first_pass)) = Inl TypeError
   \<and> TransactionBatchBuilder_build example_env 1550696040 example_first_pass = Inl TypeError"
proof -
  note s = example_first_pass_state
  have n: "[example_member] \<noteq> []" by simp
  have r: "getRCD example_member = Some (CHR 0x01 # example_key)"
    by (simp add: getRCD_def example_member_eq)
  from first_pass_raises [where hb = example_first_pass and a = 4 and txs = "[example_member]"
      and E = example_env and ts = 1550696040] s(1,2,3) n
  have "TransactionBatch_constructor example_env 1550696040 (fst example_first_pass)
         (BatchFromBuilder (snd example_first_pass)) = Inl TypeError
       \<and> TransactionBatchBuilder_build example_env 1550696040 example_first_pass = Inl TypeError"
    by blast
  with s(1,2,3) example_member_signs r show ?thesis by blast
qed

section \<open>Empty batches\<close>

lemma constructor_transactions:
  "TransactionBatch_constructor E ts h (BatchFromBuilder bb) = Inr r
     \<Longrightarrow> tb_transactions (snd r) = bb_transactions bb
         \<and> transaction_arrays (fst r) = transaction_arrays h"
  by (auto simp: TransactionBatch_constructor_def Let_def split: option.splits sum.splits if_splits)

lemma constructor_empty:
  assumes "bb_signatures bb = None" and "bb_transactions bb = Some a"
    and "transaction_arrays h a = []"
  shows "\<exists>r. TransactionBatch_constructor E ts h (BatchFromBuilder bb) = Inr r
           \<and> tb_transactions (snd r) = Some a \<and> transaction_arrays (fst r) a = []
           \<and> tb_extIds (snd r) = Some [Some (toString ts)]"
  using assms by (simp add: TransactionBatch_constructor_def Let_def push_pairs_def)

lemma constructor_from_object:
  "TransactionBatch_constructor E ts h (BatchFromObject r) = Inr tb
     \<Longrightarrow> bb_transactions (snd (TransactionBatchBuilder_constructor (fst tb) (FromBatch (snd tb))))
           = None"
  by (auto simp: TransactionBatch_constructor_def TransactionBatchBuilder_constructor_def
      split: if_splits)

text \<open>
  C8, as the code has it. \<open>build()\<close> of a batch builder whose transactions array is empty, a
  new builder in particular, raises "No Transactions Specified.". A builder without a
  transactions array, which is what \<open>new TransactionBatchBuilder(batch)\<close> gives for a batch
  constructed from a response object, has had no transaction added either, and its
  \<open>build()\<close> raises a TypeError. So \<open>build()\<close> returns no batch in either case. The
  constructor of TransactionBatch itself makes no such test: called on a builder without
  signatures whose array is empty it returns a batch with no transactions, whose \<open>extIds\<close>
  are the timestamp alone.
\<close>

theorem empty_batch_rejected:
  "TransactionBatchBuilder_build E ts (TransactionBatchBuilder_constructor h NotABatch)
     = Inl NoTransactionsSpecified
   \<and> (bb_transactions (snd hb) = Some a \<and> transaction_arrays (fst hb) a = []
        \<longrightarrow> TransactionBatchBuilder_build E ts hb = Inl NoTransactionsSpecified)
   \<and> (bb_transactions (snd hb) = None \<longrightarrow> TransactionBatchBuilder_build E ts hb = Inl TypeError)
   \<and> (TransactionBatch_constructor E ts' h (BatchFromObject resp) = Inr tb
        \<longrightarrow> TransactionBatchBuilder_build E ts
              (TransactionBatchBuilder_constructor (fst tb) (FromBatch (snd tb))) = Inl TypeError)
   \<and> (bb_signatures (snd hb) = None \<and> bb_transactions (snd hb) = Some a
        \<and> transaction_arrays (fst hb) a = []
        \<longrightarrow> (\<exists>r. TransactionBatch_constructor E ts (fst hb) (BatchFromBuilder (snd hb)) = Inr r
               \<and> tb_transactions (snd r) = Some a \<and> transaction_arrays (fst r) a = []
               \<and> tb_extIds (snd r) = Some [Some (toString ts)]))"
proof -
  have 1: "TransactionBatchBuilder_build E ts (TransactionBatchBuilder_constructor h NotABatch)
     = Inl NoTransactionsSpecified"
    by (simp add: TransactionBatchBuilder_build_def TransactionBatchBuilder_constructor_def Let_def)
  have 2: "bb_transactions (snd hb) = Some a \<and> transaction_arrays (fst hb) a = []
        \<longrightarrow> TransactionBatchBuilder_build E ts hb = Inl NoTransactionsSpecified"
    by (simp add: TransactionBatchBuilder_build_def Let_def)
  have 3: "bb_transactions (snd hb) = None \<longrightarrow> TransactionBatchBuilder_build E ts hb = Inl TypeError"
    for hb
    by (simp add: TransactionBatchBuilder_build_def Let_def)
  have 4: "TransactionBatch_constructor E ts' h (BatchFromObject resp) = Inr tb
        \<longrightarrow> TransactionBatchBuilder_build E ts
              (TransactionBatchBuilder_constructor (fst tb) (FromBatch (snd tb))) = Inl TypeError"
    using constructor_from_object [of E ts' h resp tb] 3 by blast
  have 5: "bb_signatures (snd hb) = None \<and> bb_transactions (snd hb) = Some a
        \<and> transaction_arrays (fst hb) a = []
        \<longrightarrow> (\<exists>r. TransactionBatch_constructor E ts (fst hb) (BatchFromBuilder (snd hb)) = Inr r
               \<and> tb_transactions (snd r) = Some a \<and> transaction_arrays (fst r) a = []
               \<and> tb_extIds (snd r) = Some [Some (toString ts)])"
    using constructor_empty [of "snd hb" a "fst hb" E ts] by blast
  from 1 2 3 [of hb] 4 5 show ?thesis by blast
qed

lemma example_response_batch_state:
  "TransactionBatch_constructor example_env 1550696040 (empty_store\<lparr>next_addr := 1\<rparr>)
     (BatchFromObject example_response) = Inr example_response_batch"
  "bb_transactions (snd example_seeded_builder) = None"
  by (simp_all add: example_seeded_builder_def example_response_batch_def example_response_def
      TransactionBatch_constructor_def TransactionBatchBuilder_constructor_def)

lemma example_empty_builder_state:
  "bb_signatures (snd example_empty_builder) = None"
  "bb_transactions (snd example_empty_builder) = Some 4"
  "transaction_arrays (fst example_empty_builder) 4 = []"
  "next_addr (fst example_empty_builder) = 5"
  by (simp_all add: example_empty_builder_def TransactionBatchBuilder_constructor_def Let_def
      example_owner_state)

theorem empty_batch_rejected_witness:
  "TransactionBatchBuilder_build example_env 1550696040
       (TransactionBatchBuilder_constructor empty_store NotABatch) = Inl NoTransactionsSpecified
   \<and> bb_transactions (snd example_empty_builder) = Some 4
   \<and> transaction_arrays (fst example_empty_builder) 4 = []
   \<and> TransactionBatchBuilder_build example_env 1550696040 example_empty_builder
       = Inl NoTransactionsSpecified
   \<and> bb_transactions (snd example_seeded_builder) = None
   \<and> TransactionBatch_constructor example_env 1550696040 (empty_store\<lparr>next_addr := 1\<rparr>)
         (BatchFromObject example_response) = Inr example_response_batch
   \<and> TransactionBatchBuilder_build example_env 1550696040 example_seeded_builder = Inl TypeError
   \<and> bb_signatures (snd example_empty_builder) = None
   \<and> \<not> isl (TransactionBatch_constructor example_env 1550696040 (fst example_empty_builder)
               (BatchFromBuilder (snd example_empty_builder)))
   \<and> tb_transactions (snd example_empty_batch) = Some 4
   \<and> transaction_arrays (fst example_empty_batch) 4 = []
   \<and> tb_extIds (snd example_empty_batch) = Some [Some (toString 1550696040)]"
proof -
  note e = example_empty_builder_state
  note s = example_response_batch_state
  from empty_batch_rejected [where E = example_env and ts = 1550696040 and h = empty_store
      and hb = example_empty_builder and a = 4 and ts' = 1550696040
      and resp = example_response and tb = example_response_batch]
  have 1: "TransactionBatchBuilder_build example_env 1550696040
       (TransactionBatchBuilder_constructor empty_store NotABatch) = Inl NoTransactionsSpecified"
    by blast
  from empty_batch_rejected [where E = example_env and ts = 1550696040 and h = empty_store
      and hb = example_empty_builder and a = 4 and ts' = 1550696040
      and resp = example_response and tb = example_response_batch] e(2,3)
  have 2: "TransactionBatchBuilder_build example_env 1550696040 example_empty_builder
       = Inl NoTransactionsSpecified"
    by blast
  from empty_batch_rejected [where E = example_env and ts = 1550696040
      and h = "empty_store\<lparr>next_addr := 1\<rparr>"
      and hb = example_seeded_builder and a = 4 and ts' = 1550696040
      and resp = example_response and tb = example_response_batch] s(1)
  have "TransactionBatchBuilder_build example_env 1550696040
      (TransactionBatchBuilder_constructor (fst example_response_batch)
         (FromBatch (snd example_response_batch))) = Inl TypeError"
    by blast
  then have 3: "TransactionBatchBuilder_build example_env 1550696040 example_seeded_builder
      = Inl TypeError"
    by (simp add: example_seeded_builder_def)
  from empty_batch_rejected [where E = example_env and ts = 1550696040 and h = empty_store
      and hb = example_empty_builder and a = 4 and ts' = 1550696040
      and resp = example_response and tb = example_response_batch] e(1,2,3)
  obtain r where r: "TransactionBatch_constructor example_env 1550696040 (fst example_empty_builder)
        (BatchFromBuilder (snd example_empty_builder)) = Inr r"
    and r1: "tb_transactions (snd r) = Some 4" and r2: "transaction_arrays (fst r) 4 = []"
    and r3: "tb_extIds (snd r) = Some [Some (toString 1550696040)]"
    by blast
  from r have b: "example_empty_batch = r" by (simp add: example_empty_batch_def)
  from r have 4: "\<not> isl (TransactionBatch_constructor example_env 1550696040
      (fst example_empty_builder) (BatchFromBuilder (snd example_empty_builder)))"
    by simp
  from 1 e(2,3) 2 s(2,1) 3 e(1) 4 r1 r2 r3 show ?thesis unfolding b by blast
qed

text \<open>
  C8, as stated, fails in both halves. No transaction has been added to the builder seeded
  with a batch that was constructed from a response object, and its \<open>build()\<close> raises a
  TypeError, not "No Transactions Specified.". And
  \<open>new TransactionBatch(new TransactionBatchBuilder())\<close> constructs a batch whose transaction
  sequence is empty.
\<close>

theorem empty_batch_other_outcomes:
  "bb_transactions (snd example_seeded_builder) = None
   \<and> TransactionBatchBuilder_build example_env 1550696040 example_seeded_builder = Inl TypeError
   \<and> TransactionBatchBuilder_build example_env 1550696040 example_seeded_builder
       \<noteq> Inl NoTransactionsSpecified
   \<and> TransactionBatch_constructor example_env 1550696040 (fst example_empty_builder)
         (BatchFromBuilder (snd example_empty_builder)) = Inr example_empty_batch
   \<and> tb_transactions (snd example_empty_batch) = Some 4
   \<and> transaction_arrays (fst example_empty_batch) 4 = []"
proof -
  from constructor_empty [OF example_empty_builder_state(1,2,3), of example_env 1550696040]
  obtain r where r: "TransactionBatch_constructor example_env 1550696040 (fst example_empty_builder)
        (BatchFromBuilder (snd example_empty_builder)) = Inr r"
    and r1: "tb_transactions (snd r) = Some 4" and r2: "transaction_arrays (fst r) 4 = []"
    by blast
  from r have b: "example_empty_batch = r" by (simp add: example_empty_batch_def)
  have "TransactionBatchBuilder_build example_env 1550696040 example_seeded_builder = Inl TypeError"
    by (simp add: TransactionBatchBuilder_build_def Let_def example_response_batch_state)
  with example_response_batch_state(2) r r1 r2 show ?thesis unfolding b by simp
qed

section \<open>External signature on a batch builder\<close>

text \<open>
  C5. \<open>pkSignature(tx, signature)\<close> of a batch builder raises a ReferenceError, for every
  builder, transaction and signature: \<open>t\<close> is bound nowhere in its scope. So it never returns,
  and never records a signature.
\<close>

theorem batch_pkSignature_raises:
  "TransactionBatchBuilder_pkSignature tx signature hb = Inl ReferenceError"
  by (simp add: TransactionBatchBuilder_pkSignature_def pkSignature_scope_def)


theorem batch_pkSignature_raises_witness:
  "TransactionBatchBuilder_pkSignature (snd (projr (example_tx_in empty_store ''Fsabc'' 150)))
     example_pad (projr example_batch_builder) = Inl ReferenceError"
  using batch_pkSignature_raises
    [of "snd (projr (example_tx_in empty_store ''Fsabc'' 150))" example_pad
        "projr example_batch_builder"]
  by simp

section \<open>Instances after construction\<close>

lemma input_frame:
  assumes "input E ty fs a hb = Inr hb'"
  shows "(\<forall>i. i \<noteq> b_input (snd hb) \<longrightarrow> input_objs (fst hb') i = input_objs (fst hb) i)
    \<and> transfer_arrays (fst hb') = transfer_arrays (fst hb)
    \<and> (\<forall>k. k \<noteq> next_addr (fst hb) \<longrightarrow> key_objs (fst hb') k = key_objs (fst hb) k)
    \<and> transaction_arrays (fst hb') = transaction_arrays (fst hb)
    \<and> signature_arrays (fst hb') = signature_arrays (fst hb)"
  using assms by (auto simp: input_def Let_def split: if_splits)

lemma transfer_frame:
  assumes "transfer E fa a hb = Inr hb'"
  shows "input_objs (fst hb') = input_objs (fst hb)
    \<and> (\<forall>ts. Some ts \<noteq> b_transfers (snd hb) \<longrightarrow> transfer_arrays (fst hb') ts = transfer_arrays (fst hb) ts)
    \<and> key_objs (fst hb') = key_objs (fst hb)
    \<and> transaction_arrays (fst hb') = transaction_arrays (fst hb)
    \<and> signature_arrays (fst hb') = signature_arrays (fst hb)"
  using assms by (auto simp: transfer_def Let_def split: if_splits option.splits)

lemma conversion_frame:
  assumes "conversion c hb = Inr hb'"
  shows "fst hb' = fst hb"
  using assms by (auto simp: conversion_def Let_def split: if_splits option.splits)

lemma metadata_frame:
  assumes "metadata m hb = Inr hb'"
  shows "fst hb' = fst hb"
  using assms by (auto simp: metadata_def Let_def split: if_splits option.splits)

lemma pkSignature_frame:
  assumes "pkSignature E pk sg hb = Inr hb'"
  shows "input_objs (fst hb') = input_objs (fst hb)
    \<and> transfer_arrays (fst hb') = transfer_arrays (fst hb)
    \<and> (\<forall>k. Some k \<noteq> b_key (snd hb) \<longrightarrow> key_objs (fst hb') k = key_objs (fst hb) k)
    \<and> transaction_arrays (fst hb') = transaction_arrays (fst hb)
    \<and> signature_arrays (fst hb') = signature_arrays (fst hb)"
  using assms by (auto simp: pkSignature_def Let_def split: if_splits option.splits)

lemma transaction_frame:
  assumes "TransactionBatchBuilder_transaction t hb = Inr hb'"
  shows "input_objs (fst hb') = input_objs (fst hb)
    \<and> transfer_arrays (fst hb') = transfer_arrays (fst hb)
    \<and> key_objs (fst hb') = key_objs (fst hb)
    \<and> (\<forall>a. Some a \<noteq> bb_transactions (snd hb) \<longrightarrow> transaction_arrays (fst hb') a = transaction_arrays (fst hb) a)
    \<and> signature_arrays (fst hb') = signature_arrays (fst hb)"
  using assms by (auto simp: TransactionBatchBuilder_transaction_def Let_def split: if_splits option.splits)

lemma fields_eq:
  assumes "input_objs h' (tx_input tx) = input_objs h (tx_input tx)"
    and "\<And>ts. tx_transfers tx = Some ts \<Longrightarrow> transfer_arrays h' ts = transfer_arrays h ts"
    and "\<And>k. tx_key tx = Some k \<Longrightarrow> key_objs h' k = key_objs h k"
  shows "Transaction_fields h' tx = Transaction_fields h tx"
  using assms
  by (cases "tx_transfers tx"; cases "tx_key tx")
     (simp_all add: Transaction_fields_def getInput_def getTransfers_def)

lemma input_fields:
  assumes n: "\<not> shares_objects tx (snd hb)" and al: "allocated (fst hb) tx"
    and r: "input E ty fs a hb = Inr hb'"
  shows "Transaction_fields (fst hb') tx = Transaction_fields (fst hb) tx"
proof (rule fields_eq)
  note f = input_frame [OF r]
  from n have "tx_input tx \<noteq> b_input (snd hb)" by (simp add: shares_objects_def)
  with f show "input_objs (fst hb') (tx_input tx) = input_objs (fst hb) (tx_input tx)" by simp
  show "transfer_arrays (fst hb') ts = transfer_arrays (fst hb) ts" for ts using f by simp
  show "key_objs (fst hb') k = key_objs (fst hb) k" if "tx_key tx = Some k" for k
  proof -
    from al that have "k \<noteq> next_addr (fst hb)" by (simp add: allocated_def)
    with f show ?thesis by simp
  qed
qed

lemma transfer_fields:
  assumes n: "\<not> shares_objects tx (snd hb)"
    and r: "transfer E fa a hb = Inr hb'"
  shows "Transaction_fields (fst hb') tx = Transaction_fields (fst hb) tx"
proof (rule fields_eq)
  note f = transfer_frame [OF r]
  from f show "input_objs (fst hb') (tx_input tx) = input_objs (fst hb) (tx_input tx)" by simp
  show "transfer_arrays (fst hb') ts = transfer_arrays (fst hb) ts" if "tx_transfers tx = Some ts" for ts
  proof -
    from n that have "Some ts \<noteq> b_transfers (snd hb)" by (auto simp: shares_objects_def)
    with f show ?thesis by simp
  qed
  show "key_objs (fst hb') k = key_objs (fst hb) k" for k using f by simp
qed

lemma pkSignature_fields:
  assumes n: "\<not> shares_objects tx (snd hb)"
    and r: "pkSignature E pk sg hb = Inr hb'"
  shows "Transaction_fields (fst hb') tx = Transaction_fields (fst hb) tx"
proof (rule fields_eq)
  note f = pkSignature_frame [OF r]
  from f show "input_objs (fst hb') (tx_input tx) = input_objs (fst hb) (tx_input tx)" by simp
  show "transfer_arrays (fst hb') ts = transfer_arrays (fst hb) ts" for ts using f by simp
  show "key_objs (fst hb') k = key_objs (fst hb) k" if "tx_key tx = Some k" for k
  proof -
    from n that have "Some k \<noteq> b_key (snd hb)" by (auto simp: shares_objects_def)
    with f show ?thesis by simp
  qed
qed

lemma constructor_frame:
  assumes "TransactionBatch_constructor E ts h arg = Inr r"
  shows "input_objs (fst r) = input_objs h \<and> transfer_arrays (fst r) = transfer_arrays h
    \<and> key_objs (fst r) = key_objs h \<and> transaction_arrays (fst r) = transaction_arrays h"
  using assms
  by (cases arg)
     (auto simp: TransactionBatch_constructor_def Let_def
        split: option.splits sum.splits if_splits)

lemma transaction_tx_fields:
  assumes "TransactionBatchBuilder_transaction t bhb = Inr bhb'"
  shows "Transaction_fields (fst bhb') tx = Transaction_fields (fst bhb) tx"
  using transaction_frame [OF assms] by (intro fields_eq) simp_all

lemma constructor_tx_fields:
  assumes "TransactionBatch_constructor E ts h arg = Inr r"
  shows "Transaction_fields (fst r) tx = Transaction_fields h tx"
  using constructor_frame [OF assms] by (intro fields_eq) simp_all

lemma batch_fields_eq:
  assumes e: "batch_entries h' tb = batch_entries h tb"
    and s: "signature_arrays h' = signature_arrays h"
    and f: "\<And>entries tx. batch_entries h tb = Some entries \<Longrightarrow> Some tx \<in> set entries
              \<Longrightarrow> Transaction_fields h' tx = Transaction_fields h tx"
  shows "TransactionBatch_fields h' tb = TransactionBatch_fields h tb"
proof (cases "batch_entries h tb")
  case None
  with e s show ?thesis by (simp add: TransactionBatch_fields_def)
next
  case (Some entries)
  have "map (map_option (Transaction_fields h')) entries
      = map (map_option (Transaction_fields h)) entries"
  proof (rule map_cong [OF refl])
    fix t assume t: "t \<in> set entries"
    show "map_option (Transaction_fields h') t = map_option (Transaction_fields h) t"
    proof (cases t)
      case None
      then show ?thesis by simp
    next
      case (Some tx)
      with t f [OF \<open>batch_entries h tb = Some entries\<close>, of tx] show ?thesis by simp
    qed
  qed
  with Some e s show ?thesis by (simp add: TransactionBatch_fields_def)
qed

lemma apart_member:
  assumes "apart h tb b" and "batch_entries h tb = Some entries" and "Some tx \<in> set entries"
  shows "allocated h tx" and "\<not> shares_objects tx b"
  using assms by (auto simp: apart_def list_all_iff split: option.splits)

lemma builder_batch_fields:
  assumes ap: "apart (fst hb) tb (snd hb)"
    and op: "input E ty fs a hb = Inr hb' \<or> transfer E fa a' hb = Inr hb'
      \<or> conversion c hb = Inr hb' \<or> metadata m hb = Inr hb' \<or> pkSignature E pk sg hb = Inr hb'"
  shows "TransactionBatch_fields (fst hb') tb = TransactionBatch_fields (fst hb) tb"
proof (rule batch_fields_eq)
  from op have fr: "transaction_arrays (fst hb') = transaction_arrays (fst hb)
      \<and> signature_arrays (fst hb') = signature_arrays (fst hb)"
    using input_frame [of E ty fs a hb hb'] transfer_frame [of E fa a' hb hb']
      conversion_frame [of c hb hb'] metadata_frame [of m hb hb']
      pkSignature_frame [of E pk sg hb hb']
    by auto
  from fr show "batch_entries (fst hb') tb = batch_entries (fst hb) tb"
    by (simp add: batch_entries_def)
  from fr show "signature_arrays (fst hb') = signature_arrays (fst hb)" by simp
  fix entries tx
  assume e: "batch_entries (fst hb) tb = Some entries" and t: "Some tx \<in> set entries"
  note n = apart_member [OF ap e t]
  from op show "Transaction_fields (fst hb') tx = Transaction_fields (fst hb) tx"
    using input_fields [OF n(2) n(1), of E ty fs a hb'] transfer_fields [OF n(2), of E fa a' hb']
      pkSignature_fields [OF n(2), of E pk sg hb']
      conversion_frame [of c hb hb'] metadata_frame [of m hb hb']
    by auto
qed

lemma transaction_fields:
  assumes n: "\<not> shares_transactions tb (snd hb)"
    and r: "TransactionBatchBuilder_transaction t hb = Inr hb'"
  shows "TransactionBatch_fields (fst hb') tb = TransactionBatch_fields (fst hb) tb"
proof (rule batch_fields_eq)
  note f = transaction_frame [OF r]
  have "transaction_arrays (fst hb') a = transaction_arrays (fst hb) a" if "tb_transactions tb = Some a" for a
  proof -
    from n that have "Some a \<noteq> bb_transactions (snd hb)" by (auto simp: shares_transactions_def)
    with f show ?thesis by simp
  qed
  then show "batch_entries (fst hb') tb = batch_entries (fst hb) tb"
    by (cases "tb_transactions tb") (simp_all add: batch_entries_def)
  from f show "signature_arrays (fst hb') = signature_arrays (fst hb)" by simp
  show "Transaction_fields (fst hb') tx = Transaction_fields (fst hb) tx" for tx
    by (rule transaction_tx_fields [OF r])
qed

lemma constructor_shares:
  assumes "TransactionBatch_constructor E ts h (BatchFromBuilder bb) = Inr r"
  shows "shares_transactions (snd r) bb"
  using assms
  by (auto simp: TransactionBatch_constructor_def Let_def shares_transactions_def
      split: option.splits sum.splits if_splits)

lemma transaction_appends:
  assumes s: "shares_transactions tb (snd bhb)"
    and r: "TransactionBatchBuilder_transaction t bhb = Inr bhb'"
  shows "batch_entries (fst bhb') tb = map_option (\<lambda>xs. xs @ [t]) (batch_entries (fst bhb) tb)"
  using assms
  by (auto simp: TransactionBatchBuilder_transaction_def Let_def shares_transactions_def
      batch_entries_def split: option.splits)

lemma build_shares:
  assumes "build E hb = Inr tx"
  shows "tx_input tx = b_input (snd hb)" and "tx_key tx = b_key (snd hb)"
    and "has_transfers hb \<Longrightarrow> tx_transfers tx = b_transfers (snd hb)"
  using assms
  by (auto simp: build_def Let_def Transaction_constructor_def has_transfers_def
      split: option.splits if_splits sum.splits)

lemma build_then_transfer:
  assumes b: "build E hb = Inr tx" and t: "has_transfers hb"
    and r: "transfer E fa a hb = Inr hb'"
  shows "\<exists>old. getTransfers (fst hb) tx = Some old
           \<and> getTransfers (fst hb') tx
               = Some (old @ [Some \<lparr>tr_address = Some fa, tr_amount = Some (default_amount a)\<rparr>])"
proof -
  from t obtain ts where ts: "b_transfers (snd hb) = Some ts"
    by (auto simp: has_transfers_def split: option.splits)
  from build_shares(3) [OF b t] ts have x: "tx_transfers tx = Some ts" by simp
  from r ts have "transfer_arrays (fst hb') ts
      = transfer_arrays (fst hb) ts @ [Some \<lparr>tr_address = Some fa, tr_amount = Some (default_amount a)\<rparr>]"
    by (auto simp: transfer_def Let_def split: if_splits)
  with x show ?thesis by (simp add: getTransfers_def)
qed


lemma build_shares_objects: "build E hb = Inr tx \<Longrightarrow> shares_objects tx (snd hb)"
  using build_shares(1) by (simp add: shares_objects_def)

text \<open>
  C10, as the code has it. \<open>Object.freeze(this)\<close> is shallow: a Transaction holds the input
  object, the transfers array and the key object of the builder it was built from, and a
  TransactionBatch holds the transactions array of its batch builder. A later \<open>input()\<close>,
  \<open>transfer()\<close> or \<open>pkSignature()\<close> on a transaction builder leaves every field of a
  Transaction that shares none of these objects with that builder as it is, and
  \<open>conversion()\<close>, \<open>metadata()\<close>, \<open>transaction()\<close> of a batch builder and the construction of
  a batch do so for every Transaction. A later call on a transaction builder leaves every
  field of a batch as it is when the batch is apart from that builder, and \<open>transaction()\<close>
  on a batch builder does so when the batch does not share its array with that builder. The
  builder that built a Transaction shares its objects with it, and a later \<open>transfer()\<close> on
  that builder appends to the transfers of the Transaction; the batch builder from which a
  batch was constructed shares its array with it, and a later \<open>transaction()\<close> on that
  builder appends to the transactions of the batch.
\<close>

theorem instance_fields_unchanged:
  "(\<not> shares_objects tx (snd hb) \<and> allocated (fst hb) tx \<and> input E ty fs a hb = Inr hb'
      \<longrightarrow> Transaction_fields (fst hb') tx = Transaction_fields (fst hb) tx)
   \<and> (\<not> shares_objects tx (snd hb) \<and> transfer E fa a hb = Inr hb'
      \<longrightarrow> Transaction_fields (fst hb') tx = Transaction_fields (fst hb) tx)
   \<and> (\<not> shares_objects tx (snd hb) \<and> pkSignature E pk sg hb = Inr hb'
      \<longrightarrow> Transaction_fields (fst hb') tx = Transaction_fields (fst hb) tx)
   \<and> (conversion c hb = Inr hb' \<longrightarrow> Transaction_fields (fst hb') tx = Transaction_fields (fst hb) tx)
   \<and> (metadata m hb = Inr hb' \<longrightarrow> Transaction_fields (fst hb') tx = Transaction_fields (fst hb) tx)
   \<and> (TransactionBatchBuilder_transaction t bhb = Inr bhb'
      \<longrightarrow> Transaction_fields (fst bhb') tx = Transaction_fields (fst bhb) tx)
   \<and> (TransactionBatch_constructor E ts h arg = Inr r
      \<longrightarrow> Transaction_fields (fst r) tx = Transaction_fields h tx)
   \<and> (apart (fst hb) tb (snd hb)
        \<and> (input E ty fs a hb = Inr hb' \<or> transfer E fa a hb = Inr hb' \<or> conversion c hb = Inr hb'
           \<or> metadata m hb = Inr hb' \<or> pkSignature E pk sg hb = Inr hb')
      \<longrightarrow> TransactionBatch_fields (fst hb') tb = TransactionBatch_fields (fst hb) tb)
   \<and> (\<not> shares_transactions tb (snd bhb) \<and> TransactionBatchBuilder_transaction t bhb = Inr bhb'
      \<longrightarrow> TransactionBatch_fields (fst bhb') tb = TransactionBatch_fields (fst bhb) tb)
   \<and> (build E hb = Inr tx \<longrightarrow> shares_objects tx (snd hb))
   \<and> (build E hb = Inr tx \<and> has_transfers hb \<and> transfer E fa a hb = Inr hb'
      \<longrightarrow> (\<exists>old. getTransfers (fst hb) tx = Some old
            \<and> getTransfers (fst hb') tx
                = Some (old @ [Some \<lparr>tr_address = Some fa, tr_amount = Some (default_amount a)\<rparr>])))
   \<and> (TransactionBatch_constructor E ts h (BatchFromBuilder bb) = Inr r
      \<longrightarrow> shares_transactions (snd r) bb)
   \<and> (shares_transactions tb (snd bhb) \<and> TransactionBatchBuilder_transaction t bhb = Inr bhb'
      \<longrightarrow> batch_entries (fst bhb') tb = map_option (\<lambda>xs. xs @ [t]) (batch_entries (fst bhb) tb))"
proof -
  have 1: "\<not> shares_objects tx (snd hb) \<and> allocated (fst hb) tx \<and> input E ty fs a hb = Inr hb'
      \<longrightarrow> Transaction_fields (fst hb') tx = Transaction_fields (fst hb) tx"
    using input_fields by blast
  have 2: "\<not> shares_objects tx (snd hb) \<and> transfer E fa a hb = Inr hb'
      \<longrightarrow> Transaction_fields (fst hb') tx = Transaction_fields (fst hb) tx"
    using transfer_fields by blast
  have 3: "\<not> shares_objects tx (snd hb) \<and> pkSignature E pk sg hb = Inr hb'
      \<longrightarrow> Transaction_fields (fst hb') tx = Transaction_fields (fst hb) tx"
    using pkSignature_fields by blast
  have 4: "conversion c hb = Inr hb'
      \<longrightarrow> Transaction_fields (fst hb') tx = Transaction_fields (fst hb) tx"
    using conversion_frame [of c hb hb'] by auto
  have 5: "metadata m hb = Inr hb'
      \<longrightarrow> Transaction_fields (fst hb') tx = Transaction_fields (fst hb) tx"
    using metadata_frame [of m hb hb'] by auto
  have 6: "TransactionBatchBuilder_transaction t bhb = Inr bhb'
      \<longrightarrow> Transaction_fields (fst bhb') tx = Transaction_fields (fst bhb) tx"
    using transaction_tx_fields by blast
  have 7: "TransactionBatch_constructor E ts h arg = Inr r
      \<longrightarrow> Transaction_fields (fst r) tx = Transaction_fields h tx"
    using constructor_tx_fields by blast
  have 8: "apart (fst hb) tb (snd hb)
        \<and> (input E ty fs a hb = Inr hb' \<or> transfer E fa a hb = Inr hb' \<or> conversion c hb = Inr hb'
           \<or> metadata m hb = Inr hb' \<or> pkSignature E pk sg hb = Inr hb')
      \<longrightarrow> TransactionBatch_fields (fst hb') tb = TransactionBatch_fields (fst hb) tb"
    using builder_batch_fields [of hb tb E ty fs a hb' fa a c m pk sg] by blast
  have 9: "\<not> shares_transactions tb (snd bhb) \<and> TransactionBatchBuilder_transaction t bhb = Inr bhb'
      \<longrightarrow> TransactionBatch_fields (fst bhb') tb = TransactionBatch_fields (fst bhb) tb"
    using transaction_fields by blast
  have 10: "build E hb = Inr tx \<longrightarrow> shares_objects tx (snd hb)"
    using build_shares_objects by blast
  have 11: "build E hb = Inr tx \<and> has_transfers hb \<and> transfer E fa a hb = Inr hb'
      \<longrightarrow> (\<exists>old. getTransfers (fst hb) tx = Some old
            \<and> getTransfers (fst hb') tx
                = Some (old @ [Some \<lparr>tr_address = Some fa, tr_amount = Some (default_amount a)\<rparr>]))"
    using build_then_transfer by blast
  have 12: "TransactionBatch_constructor E ts h (BatchFromBuilder bb) = Inr r
      \<longrightarrow> shares_transactions (snd r) bb"
    using constructor_shares by blast
  have 13: "shares_transactions tb (snd bhb) \<and> TransactionBatchBuilder_transaction t bhb = Inr bhb'
      \<longrightarrow> batch_entries (fst bhb') tb = map_option (\<lambda>xs. xs @ [t]) (batch_entries (fst bhb) tb)"
    using transaction_appends by blast
  show ?thesis
    apply (intro conjI)
                apply (rule 1)
               apply (rule 2)
              apply (rule 3)
             apply (rule 4)
            apply (rule 5)
           apply (rule 6)
          apply (rule 7)
         apply (rule 8)
        apply (rule 9)
       apply (rule 10)
      apply (rule 11)
     apply (rule 12)
    apply (rule 13)
    done
qed

lemma example_empty_builder_frame:
  "input_objs (fst example_empty_builder) = input_objs (fst example_owner)"
  "transfer_arrays (fst example_empty_builder) = transfer_arrays (fst example_owner)"
  "key_objs (fst example_empty_builder) = key_objs (fst example_owner)"
  by (simp_all add: example_empty_builder_def TransactionBatchBuilder_constructor_def Let_def)

lemma example_empty_batch_state:
  "TransactionBatch_constructor example_env 1550696040 (fst example_empty_builder)
     (BatchFromBuilder (snd example_empty_builder)) = Inr example_empty_batch"
  "tb_transactions (snd example_empty_batch) = Some 4"
  "tb_signatures (snd example_empty_batch) = Some 5"
  "transaction_arrays (fst example_empty_batch) 4 = []"
  "next_addr (fst example_empty_batch) = 6"
  "input_objs (fst example_empty_batch) = input_objs (fst example_owner)"
  "transfer_arrays (fst example_empty_batch) = transfer_arrays (fst example_owner)"
  "key_objs (fst example_empty_batch) = key_objs (fst example_owner)"
  by (simp_all add: example_empty_batch_def TransactionBatch_constructor_def Let_def
      example_empty_builder_state example_empty_builder_frame)

lemma example_filled_state:
  "TransactionBatchBuilder_transaction (Some example_member)
     (fst example_empty_batch, snd example_empty_builder) = Inr example_filled"
  "snd example_filled = snd example_empty_builder"
  "transaction_arrays (fst example_filled) 4 = [Some example_member]"
  "next_addr (fst example_filled) = 6"
  "input_objs (fst example_filled) = input_objs (fst example_owner)"
  "transfer_arrays (fst example_filled) = transfer_arrays (fst example_owner)"
  "key_objs (fst example_filled) = key_objs (fst example_owner)"
  by (simp_all add: example_filled_def TransactionBatchBuilder_transaction_def Let_def
      example_empty_builder_state example_empty_batch_state)

lemma example_hb2_state:
  "snd example_hb2 = \<lparr>b_tokenChainId = token_chain_id, b_key = Some 6, b_signature = None,
      b_input = 7, b_transfers = Some 8, b_conversion = None, b_timestamp = None,
      b_metadata = None\<rparr>"
  "next_addr (fst example_hb2) = 9"
  "transfer_arrays (fst example_hb2) 8 = []"
  "transaction_arrays (fst example_hb2) 4 = [Some example_member]"
  by (simp_all add: example_hb2_def TransactionBuilder_constructor_def Let_def
      example_filled_state)

lemma example_hb2_input_state:
  "input example_env (Some ''PEG'') example_other_fa (Some (Finite 7)) example_hb2
     = Inr example_hb2_input"
  "snd example_hb2_input = \<lparr>b_tokenChainId = token_chain_id, b_key = Some 9, b_signature = None,
      b_input = 7, b_transfers = Some 8, b_conversion = None, b_timestamp = None,
      b_metadata = None\<rparr>"
  "in_address (input_objs (fst example_hb2_input) 7) = Some example_other_fa"
  "transaction_arrays (fst example_hb2_input) 4 = [Some example_member]"
  "next_addr (fst example_hb2_input) = 10"
  by (simp_all add: example_hb2_input_def input_def Let_def example_hb2_state example_env_def
      example_other_fa_def default_amount_def invalid_amount_def)

lemma example_hb2_ops:
  "\<not> isl (transfer example_env ''FAxyz'' (Some (Finite 7)) example_hb2)"
  "\<not> isl (conversion (Some ''PEG'') example_hb2)"
  "\<not> isl (metadata (Some (Json ''{}'')) example_hb2)"
  "\<not> isl (pkSignature example_env (ByteKey example_other_key) example_pad example_hb2_input)"
proof -
  have v: "isValidPublicFctAddress example_env ''FAxyz''"
    "\<not> invalid_amount (default_amount (Some (Finite 7)))"
    "keyToPublicFctAddress example_env (Buffer_from_hex (ByteKey example_other_key))
       = example_other_fa"
    "length (Buffer_from_hex (ByteKey example_other_key)) = 32"
    "length example_pad = 64"
    by (simp_all add: example_env_def invalid_amount_def default_amount_def Buffer_from_hex_def
        example_pad_def example_other_key_def example_other_fa_def)
  show "\<not> isl (transfer example_env ''FAxyz'' (Some (Finite 7)) example_hb2)"
    by (simp add: transfer_def Let_def example_hb2_state v)
  show "\<not> isl (conversion (Some ''PEG'') example_hb2)"
    by (simp add: conversion_def Let_def example_hb2_state)
  show "\<not> isl (metadata (Some (Json ''{}'')) example_hb2)"
    by (simp add: metadata_def Let_def example_hb2_state)
  show "\<not> isl (pkSignature example_env (ByteKey example_other_key) example_pad example_hb2_input)"
    by (simp add: pkSignature_def Let_def example_hb2_input_state v)
qed

lemma example_not_shared:
  "\<not> shares_objects example_member (snd example_hb2)"
  "\<not> shares_objects example_member (snd example_hb2_input)"
  "allocated (fst example_hb2) example_member"
  "apart (fst example_hb2) (snd example_empty_batch) (snd example_hb2)"
  "apart (fst example_hb2_input) (snd example_empty_batch) (snd example_hb2_input)"
  by (simp_all add: shares_objects_def allocated_def apart_def batch_entries_def
      example_member_eq example_hb2_state example_hb2_input_state example_empty_batch_state)

lemma example_bb2_state:
  "bb_transactions (snd example_bb2) = Some 6"
  "\<not> isl (TransactionBatchBuilder_transaction (Some example_member) example_bb2)"
  "\<not> shares_transactions (snd example_empty_batch) (snd example_bb2)"
  by (simp_all add: example_bb2_def TransactionBatchBuilder_constructor_def Let_def
      TransactionBatchBuilder_transaction_def shares_transactions_def example_filled_state
      example_empty_batch_state)

lemma example_owner_ops:
  "has_transfers example_owner"
  "\<not> isl (transfer example_env ''FAxyz'' (Some (Finite 1)) example_owner)"
  "shares_transactions (snd example_empty_batch) (snd example_empty_builder)"
  "batch_entries (fst example_empty_batch) (snd example_empty_batch) = Some []"
  by (simp_all add: has_transfers_def transfer_def Let_def example_owner_state example_env_def
      default_amount_def invalid_amount_def shares_transactions_def batch_entries_def
      example_empty_batch_state example_empty_builder_state)

theorem instance_fields_unchanged_witness:
  "\<not> shares_objects example_member (snd example_hb2)
   \<and> allocated (fst example_hb2) example_member
   \<and> input example_env (Some ''PEG'') example_other_fa (Some (Finite 7)) example_hb2
       = Inr example_hb2_input
   \<and> Transaction_fields (fst example_hb2_input) example_member
       = Transaction_fields (fst example_hb2) example_member
   \<and> \<not> isl (transfer example_env ''FAxyz'' (Some (Finite 7)) example_hb2)
   \<and> Transaction_fields
         (fst (projr (transfer example_env ''FAxyz'' (Some (Finite 7)) example_hb2))) example_member
       = Transaction_fields (fst example_hb2) example_member
   \<and> \<not> shares_objects example_member (snd example_hb2_input)
   \<and> \<not> isl (pkSignature example_env (ByteKey example_other_key) example_pad example_hb2_input)
   \<and> Transaction_fields
         (fst (projr (pkSignature example_env (ByteKey example_other_key) example_pad
                        example_hb2_input)))
         example_member
       = Transaction_fields (fst example_hb2_input) example_member
   \<and> \<not> isl (conversion (Some ''PEG'') example_hb2)
   \<and> Transaction_fields (fst (projr (conversion (Some ''PEG'') example_hb2))) example_member
       = Transaction_fields (fst example_hb2) example_member
   \<and> \<not> isl (metadata (Some (Json ''{}'')) example_hb2)
   \<and> Transaction_fields (fst (projr (metadata (Some (Json ''{}'')) example_hb2))) example_member
       = Transaction_fields (fst example_hb2) example_member
   \<and> Transaction_fields (fst example_filled) example_member
       = Transaction_fields (fst example_empty_batch) example_member
   \<and> Transaction_fields (fst example_empty_batch) example_member
       = Transaction_fields (fst example_empty_builder) example_member
   \<and> batch_entries (fst example_hb2) (snd example_empty_batch) = Some [Some example_member]
   \<and> apart (fst example_hb2) (snd example_empty_batch) (snd example_hb2)
   \<and> TransactionBatch_fields (fst example_hb2_input) (snd example_empty_batch)
       = TransactionBatch_fields (fst example_hb2) (snd example_empty_batch)
   \<and> TransactionBatch_fields
         (fst (projr (transfer example_env ''FAxyz'' (Some (Finite 7)) example_hb2)))
         (snd example_empty_batch)
       = TransactionBatch_fields (fst example_hb2) (snd example_empty_batch)
   \<and> apart (fst example_hb2_input) (snd example_empty_batch) (snd example_hb2_input)
   \<and> TransactionBatch_fields
         (fst (projr (pkSignature example_env (ByteKey example_other_key) example_pad
                        example_hb2_input)))
         (snd example_empty_batch)
       = TransactionBatch_fields (fst example_hb2_input) (snd example_empty_batch)
   \<and> \<not> shares_transactions (snd example_empty_batch) (snd example_bb2)
   \<and> \<not> isl (TransactionBatchBuilder_transaction (Some example_member) example_bb2)
   \<and> TransactionBatch_fields
         (fst (projr (TransactionBatchBuilder_transaction (Some example_member) example_bb2)))
         (snd example_empty_batch)
       = TransactionBatch_fields (fst example_bb2) (snd example_empty_batch)
   \<and> build example_env example_owner = Inr example_member
   \<and> shares_objects example_member (snd example_owner)
   \<and> has_transfers example_owner
   \<and> getTransfers
         (fst (projr (transfer example_env ''FAxyz'' (Some (Finite 1)) example_owner)))
         example_member
       = Some (the (getTransfers (fst example_owner) example_member)
               @ [Some \<lparr>tr_address = Some ''FAxyz'',
                         tr_amount = Some (default_amount (Some (Finite 1)))\<rparr>])
   \<and> shares_transactions (snd example_empty_batch) (snd example_empty_builder)
   \<and> batch_entries (fst example_empty_batch) (snd example_empty_batch) = Some []
   \<and> batch_entries (fst example_filled) (snd example_empty_batch) = Some ([] @ [Some example_member])"
proof -
  let ?tr = "transfer example_env ''FAxyz'' (Some (Finite 7)) example_hb2"
  let ?pk = "pkSignature example_env (ByteKey example_other_key) example_pad example_hb2_input"
  let ?cv = "conversion (Some ''PEG'') example_hb2"
  let ?md = "metadata (Some (Json ''{}'')) example_hb2"
  let ?tb = "snd example_empty_batch"
  let ?tx = "TransactionBatchBuilder_transaction (Some example_member) example_bb2"
  let ?t1 = "transfer example_env ''FAxyz'' (Some (Finite 1)) example_owner"
  note n = example_not_shared
  note o = example_hb2_ops
  note i = example_hb2_input_state(1)
  note w = example_owner_ops
  have tr: "?tr = Inr (projr ?tr)" using o(1) by simp
  have pk: "?pk = Inr (projr ?pk)" using o(4) by simp
  have cv: "?cv = Inr (projr ?cv)" using o(2) by simp
  have md: "?md = Inr (projr ?md)" using o(3) by simp
  have tx: "?tx = Inr (projr ?tx)" using example_bb2_state(2) by simp
  have t1: "?t1 = Inr (projr ?t1)" using w(2) by simp
  note b = example_owner_state(6)
  note f = example_filled_state(1)
  note c = example_empty_batch_state(1)
  have e: "batch_entries (fst example_hb2) ?tb = Some [Some example_member]"
    by (simp add: batch_entries_def example_empty_batch_state example_hb2_state)
  from instance_fields_unchanged [where tx = example_member and hb = example_hb2
      and E = example_env and ty = "Some ''PEG''" and fs = example_other_fa
      and a = "Some (Finite 7)" and hb' = example_hb2_input and tb = ?tb] n(1,3,4) i
  have 1: "Transaction_fields (fst example_hb2_input) example_member
      = Transaction_fields (fst example_hb2) example_member"
    and 8: "TransactionBatch_fields (fst example_hb2_input) ?tb
      = TransactionBatch_fields (fst example_hb2) ?tb"
    by blast+
  from instance_fields_unchanged [where tx = example_member and hb = example_hb2
      and E = example_env and fa = "''FAxyz''" and a = "Some (Finite 7)" and hb' = "projr ?tr"
      and tb = ?tb] n(1,4) tr
  have 2: "Transaction_fields (fst (projr ?tr)) example_member
      = Transaction_fields (fst example_hb2) example_member"
    and b8: "TransactionBatch_fields (fst (projr ?tr)) ?tb
      = TransactionBatch_fields (fst example_hb2) ?tb"
    by blast+
  from instance_fields_unchanged [where tx = example_member and hb = example_hb2_input
      and E = example_env and pk = "ByteKey example_other_key" and sg = example_pad
      and hb' = "projr ?pk" and tb = ?tb] n(2,5) pk
  have 3: "Transaction_fields (fst (projr ?pk)) example_member
      = Transaction_fields (fst example_hb2_input) example_member"
    and c8: "TransactionBatch_fields (fst (projr ?pk)) ?tb
      = TransactionBatch_fields (fst example_hb2_input) ?tb"
    by blast+
  from instance_fields_unchanged [where tx = example_member and hb = example_hb2
      and c = "Some ''PEG''" and hb' = "projr ?cv"] cv
  have 4: "Transaction_fields (fst (projr ?cv)) example_member
      = Transaction_fields (fst example_hb2) example_member"
    by blast
  from instance_fields_unchanged [where tx = example_member and hb = example_hb2
      and m = "Some (Json ''{}'')" and hb' = "projr ?md"] md
  have 5: "Transaction_fields (fst (projr ?md)) example_member
      = Transaction_fields (fst example_hb2) example_member"
    by blast
  from instance_fields_unchanged [where tx = example_member and t = "Some example_member"
      and bhb = "(fst example_empty_batch, snd example_empty_builder)" and bhb' = example_filled] f
  have 6: "Transaction_fields (fst example_filled) example_member
      = Transaction_fields (fst example_empty_batch) example_member"
    by simp
  from instance_fields_unchanged [where tx = example_member and E = example_env
      and ts = 1550696040 and h = "fst example_empty_builder"
      and arg = "BatchFromBuilder (snd example_empty_builder)" and r = example_empty_batch
      and bb = "snd example_empty_builder"] c
  have 7: "Transaction_fields (fst example_empty_batch) example_member
      = Transaction_fields (fst example_empty_builder) example_member"
    and 12: "shares_transactions ?tb (snd example_empty_builder)"
    by blast+
  from instance_fields_unchanged [where tb = ?tb and bhb = example_bb2
      and t = "Some example_member" and bhb' = "projr ?tx"] example_bb2_state(3) tx
  have 9: "TransactionBatch_fields (fst (projr ?tx)) ?tb
      = TransactionBatch_fields (fst example_bb2) ?tb"
    by blast
  from instance_fields_unchanged [where tx = example_member and hb = example_owner
      and E = example_env and fa = "''FAxyz''" and a = "Some (Finite 1)" and hb' = "projr ?t1"]
    b t1 w(1)
  have 10: "shares_objects example_member (snd example_owner)"
    and "\<exists>old. getTransfers (fst example_owner) example_member = Some old
            \<and> getTransfers (fst (projr ?t1)) example_member
                = Some (old @ [Some \<lparr>tr_address = Some ''FAxyz'',
                                        tr_amount = Some (default_amount (Some (Finite 1)))\<rparr>])"
    by blast+
  then have 11: "getTransfers (fst (projr ?t1)) example_member
      = Some (the (getTransfers (fst example_owner) example_member)
              @ [Some \<lparr>tr_address = Some ''FAxyz'',
                        tr_amount = Some (default_amount (Some (Finite 1)))\<rparr>])"
    by auto
  from instance_fields_unchanged [where tb = ?tb and t = "Some example_member"
      and bhb = "(fst example_empty_batch, snd example_empty_builder)" and bhb' = example_filled]
    12 f
  have "batch_entries (fst example_filled) ?tb
      = map_option (\<lambda>xs. xs @ [Some example_member]) (batch_entries (fst example_empty_batch) ?tb)"
    by simp
  then have 13: "batch_entries (fst example_filled) ?tb = Some ([] @ [Some example_member])"
    by (simp add: w(4))
  show ?thesis
    apply (intro conjI)
    apply (rule n(1) n(3) i 1 o(1) 2 n(2) o(4) 3 o(2) 4 o(3) 5 6 7 e n(4) 8 b8 n(5) c8
        example_bb2_state(3) example_bb2_state(2) 9 b 10 w(1) 11 12 w(4) 13)+
    done
qed

text \<open>
  C10, as stated, fails. After \<open>member = owner.build()\<close>, \<open>owner.transfer("FAxyz", 1)\<close> adds a
  second entry to the transfers of \<open>member\<close>, and \<open>owner.input("PEG", fa, 7)\<close> replaces the
  address, amount and type of its input. After \<open>batch = new TransactionBatch(batchBuilder)\<close>,
  \<open>batchBuilder.transaction(member)\<close> gives the batch, which had no transaction, one; and
  \<open>owner.transfer("FAxyz", 1)\<close> then changes that transaction inside the batch.
\<close>

theorem builder_changes_built_instance:
  "build example_env example_owner = Inr example_member
   \<and> getTransfers (fst example_owner) example_member
     = Some [Some \<lparr>tr_address = Some ''FAxyz'', tr_amount = Some (Finite 150)\<rparr>]
   \<and> getTransfers
       (fst (projr (transfer example_env ''FAxyz'' (Some (Finite 1)) example_owner)))
       example_member
     = Some [Some \<lparr>tr_address = Some ''FAxyz'', tr_amount = Some (Finite 150)\<rparr>,
             Some \<lparr>tr_address = Some ''FAxyz'', tr_amount = Some (Finite 1)\<rparr>]
   \<and> getInput (fst example_owner) example_member
     = \<lparr>in_address = Some example_fa, in_amount = Some (Finite 150), in_type = Some ''pFCT''\<rparr>
   \<and> getInput
       (fst (projr (input example_env (Some ''PEG'') example_other_fa (Some (Finite 7))
                      example_owner)))
       example_member
     = \<lparr>in_address = Some example_other_fa, in_amount = Some (Finite 7), in_type = Some ''PEG''\<rparr>
   \<and> TransactionBatch_constructor example_env 1550696040 (fst example_empty_builder)
       (BatchFromBuilder (snd example_empty_builder)) = Inr example_empty_batch
   \<and> fst (TransactionBatch_fields (fst example_empty_batch) (snd example_empty_batch)) = Some []
   \<and> TransactionBatchBuilder_transaction (Some example_member)
       (fst example_empty_batch, snd example_empty_builder) = Inr example_filled
   \<and> fst (TransactionBatch_fields (fst example_filled) (snd example_empty_batch))
       = Some [Some (Transaction_fields (fst example_filled) example_member)]
   \<and> fst (snd (Transaction_fields (fst example_filled) example_member))
       = Some [Some \<lparr>tr_address = Some ''FAxyz'', tr_amount = Some (Finite 150)\<rparr>]
   \<and> fst (TransactionBatch_fields
            (fst (projr (transfer example_env ''FAxyz'' (Some (Finite 1))
                           (fst example_filled, snd example_owner))))
            (snd example_empty_batch))
       = Some [Some (Transaction_fields
                       (fst (projr (transfer example_env ''FAxyz'' (Some (Finite 1))
                                      (fst example_filled, snd example_owner))))
                       example_member)]
   \<and> fst (snd (Transaction_fields
                 (fst (projr (transfer example_env ''FAxyz'' (Some (Finite 1))
                                (fst example_filled, snd example_owner))))
                 example_member))
       = Some [Some \<lparr>tr_address = Some ''FAxyz'', tr_amount = Some (Finite 150)\<rparr>,
               Some \<lparr>tr_address = Some ''FAxyz'', tr_amount = Some (Finite 1)\<rparr>]"
proof -
  have v: "isValidPublicFctAddress example_env ''FAxyz''"
    "isValidPublicFctAddress example_env example_other_fa"
    "\<not> isValidPrivateAddress example_env example_other_fa"
    "\<not> invalid_amount (Finite 1)" "\<not> invalid_amount (Finite 7)"
    by (simp_all add: example_env_def example_other_fa_def invalid_amount_def)
  note o = example_owner_state
  note m = example_member_eq
  have 1: "getTransfers (fst example_owner) example_member
     = Some [Some \<lparr>tr_address = Some ''FAxyz'', tr_amount = Some (Finite 150)\<rparr>]"
    by (simp add: getTransfers_def m o)
  have 2: "getTransfers
       (fst (projr (transfer example_env ''FAxyz'' (Some (Finite 1)) example_owner)))
       example_member
     = Some [Some \<lparr>tr_address = Some ''FAxyz'', tr_amount = Some (Finite 150)\<rparr>,
             Some \<lparr>tr_address = Some ''FAxyz'', tr_amount = Some (Finite 1)\<rparr>]"
    by (simp add: getTransfers_def m o transfer_def Let_def v default_amount_def)
  have 3: "getInput (fst example_owner) example_member
     = \<lparr>in_address = Some example_fa, in_amount = Some (Finite 150), in_type = Some ''pFCT''\<rparr>"
    by (simp add: getInput_def m o del: One_nat_def)
  have 4: "getInput
       (fst (projr (input example_env (Some ''PEG'') example_other_fa (Some (Finite 7))
                      example_owner)))
       example_member
     = \<lparr>in_address = Some example_other_fa, in_amount = Some (Finite 7), in_type = Some ''PEG''\<rparr>"
    by (simp add: getInput_def m o input_def Let_def v default_amount_def del: One_nat_def)
  have 5: "fst (TransactionBatch_fields (fst example_empty_batch) (snd example_empty_batch))
      = Some []"
    by (simp add: TransactionBatch_fields_def batch_entries_def example_empty_batch_state)
  have 6: "fst (TransactionBatch_fields (fst example_filled) (snd example_empty_batch))
       = Some [Some (Transaction_fields (fst example_filled) example_member)]"
    by (simp add: TransactionBatch_fields_def batch_entries_def example_empty_batch_state
        example_filled_state)
  have 7: "fst (snd (Transaction_fields (fst example_filled) example_member))
       = Some [Some \<lparr>tr_address = Some ''FAxyz'', tr_amount = Some (Finite 150)\<rparr>]"
    by (simp add: Transaction_fields_def getTransfers_def m o example_filled_state)
  let ?h = "fst (projr (transfer example_env ''FAxyz'' (Some (Finite 1))
                           (fst example_filled, snd example_owner)))"
  have h: "transaction_arrays ?h 4 = [Some example_member]"
    "transfer_arrays ?h 2
       = [Some \<lparr>tr_address = Some ''FAxyz'', tr_amount = Some (Finite 150)\<rparr>,
          Some \<lparr>tr_address = Some ''FAxyz'', tr_amount = Some (Finite 1)\<rparr>]"
    by (simp_all add: transfer_def Let_def v default_amount_def o example_filled_state)
  have 8: "fst (TransactionBatch_fields ?h (snd example_empty_batch))
       = Some [Some (Transaction_fields ?h example_member)]"
    by (simp add: TransactionBatch_fields_def batch_entries_def example_empty_batch_state h)
  have 9: "fst (snd (Transaction_fields ?h example_member))
       = Some [Some \<lparr>tr_address = Some ''FAxyz'', tr_amount = Some (Finite 150)\<rparr>,
               Some \<lparr>tr_address = Some ''FAxyz'', tr_amount = Some (Finite 1)\<rparr>]"
    by (simp add: Transaction_fields_def getTransfers_def m h)
  show ?thesis
    apply (intro conjI)
    apply (rule o(6) 1 2 3 4 example_empty_batch_state(1) 5 example_filled_state(1) 6 7 8 9)+
    done
qed

end
